theory Spec2Isabelle
  imports Main "HOL-Library.Sublist" "HOL-Library.Multiset" "HOL-Library.Word"
begin

section \<open>JavaScript values used by the action\<close>

text \<open>
  A JavaScript string is modelled as a \<open>string\<close>: the list of its code units, restricted
  to the units below 256. \<open>String.prototype.trim\<close> removes white space and line
  terminators at both ends; below 256 these are TAB, LF, VT, FF, CR, SPACE and NBSP.
\<close>

definition isWhiteSpace :: "char \<Rightarrow> bool" where
  "isWhiteSpace c =
     (c = CHR 0x09 \<or> c = CHR 0x0A \<or> c = CHR 0x0B \<or> c = CHR 0x0C \<or> c = CHR 0x0D \<or>
      c = CHR 0x20 \<or> c = CHR 0xA0)"

definition trim :: "string \<Rightarrow> string" where
  "trim s = rev (dropWhile isWhiteSpace (rev (dropWhile isWhiteSpace s)))"

text \<open>
  \<open>s.split(sep)\<close> for a separator of one code unit: a left-to-right scan that closes the
  current piece at every separator. The result always has at least one piece
  (\<open>''''.split('','')\<close> is \<open>['''']\<close>).
\<close>

fun splitScan :: "char \<Rightarrow> string \<Rightarrow> string \<Rightarrow> string list" where
  "splitScan sep piece [] = [rev piece]"
| "splitScan sep piece (c # cs) =
     (if c = sep then rev piece # splitScan sep [] cs else splitScan sep (c # piece) cs)"

definition splitStr :: "char \<Rightarrow> string \<Rightarrow> string list" where
  "splitStr sep s = splitScan sep [] s"

text \<open>\<open>xs.join(sep)\<close> on an array of strings.\<close>

fun join :: "string \<Rightarrow> string list \<Rightarrow> string" where
  "join sep [] = []"
| "join sep [x] = x"
| "join sep (x # y # ys) = x @ sep @ join sep (y # ys)"

definition startsWith :: "string \<Rightarrow> string \<Rightarrow> bool" where
  "startsWith s p = (take (length p) s = p)"

text \<open>Array element access \<open>xs[i]\<close>, which is \<open>undefined\<close> (here \<open>None\<close>) out of range.\<close>

fun element :: "'a list \<Rightarrow> nat \<Rightarrow> 'a option" where
  "element [] i = None"
| "element (x # xs) 0 = Some x"
| "element (x # xs) (Suc i) = element xs i"

text \<open>A possibly undefined string inside a template literal.\<close>

fun interpolate :: "string option \<Rightarrow> string" where
  "interpolate None = ''undefined''"
| "interpolate (Some s) = s"

text \<open>A non-negative integer inside a template literal: its decimal digits.\<close>

definition digitChar :: "nat \<Rightarrow> char" where
  "digitChar d = char_of (48 + d)"

fun showNat :: "nat \<Rightarrow> string" where
  "showNat n = (if n < 10 then [digitChar n] else showNat (n div 10) @ [digitChar (n mod 10)])"

declare showNat.simps [simp del]

text \<open>
  A JavaScript Number as a template literal reads it. A non-negative safe integer, that
  is one below \<open>2^53\<close>, is rendered by its decimal digits; \<open>NaN\<close> (what \<open>parseInt\<close> gives for
  a missing or malformed text) is rendered \<open>NaN\<close>; any other Number (a negative one, an
  integer from \<open>2^53\<close> on, which may be rounded and from \<open>10^21\<close> on is written with an
  exponent, an infinity) is given by the text that \<open>ToString\<close> renders for it.
\<close>

datatype jsNumber = SafeInteger "53 word" | NaN | OtherNumber string

fun numberToString :: "jsNumber \<Rightarrow> string" where
  "numberToString (SafeInteger n) = showNat (unat n)"
| "numberToString NaN = ''NaN''"
| "numberToString (OtherNumber text) = text"

text \<open>The regular expression class \<open>[^0-9]\<close> is the complement of the ASCII digits.\<close>

definition isDigit :: "char \<Rightarrow> bool" where
  "isDigit c = (c \<in> set ''0123456789'')"

definition stripNonDigits :: "string \<Rightarrow> string" where
  "stripNonDigits s = filter isDigit s"

section \<open>Data of one run\<close>

record FileRecord =
  filename :: string
  status :: string

text \<open>
  An item of the host's contents API. A response is either a directory listing (an
  array of items) or a single item; for an item of type \<open>file\<close> the API carries the
  base64 text of the file in \<open>content\<close>.
\<close>

record item =
  itemType :: string
  itemPath :: string
  itemContent :: string

datatype contentData = Listing "item list" | Single item

text \<open>The five arguments of \<open>agentWrapper.invokeAgent\<close>, in the order of the call.\<close>

record agentCall =
  callAgentId :: string
  callAgentAliasId :: string
  callSessionId :: string
  callPrompt :: string
  callMemoryId :: "string option"

text \<open>
  Everything the run does to the outside is an event of its trace: the log calls of
  \<open>@actions/core\<close>, the failure signal \<open>core.setFailed\<close>, the report printed with
  \<open>console.info\<close>, and the call of the agent.
\<close>

datatype event =
    CoreInfo string
  | CoreWarning string
  | CoreError string
  | CoreSetFailed string
  | ConsoleInfo string
  | InvokeAgent agentCall

text \<open>
  The clock is read at many program points. A read is indexed by the source line of the
  call, and inside \<open>processFile\<close> also by the file being handled, so that the value of one
  read does not depend on how many other reads were made.
\<close>

datatype site = Line nat | FileLine nat string

text \<open>
  The environment of a run: process environment, event context (\<open>runId\<close> is the Number
  \<open>github.context.runId\<close>), action inputs, clock,
  the source-control host, the file system, the libraries \<open>minimatch\<close>, \<open>path\<close> and
  \<open>Buffer\<close>, and the agent. A call that can throw returns \<open>Inl\<close> with the message of the
  error. \<open>minimatch\<close> is the library's predicate on a path and a pattern, both strings;
  \<open>base64ToUtf8\<close> is \<open>Buffer.from(text, 'base64').toString('utf8')\<close>, which returns a
  string for every string. \<open>latency\<close> is the time the content request of a path takes to
  settle: it fixes the order in which the pending \<open>processFile\<close> calls resume under
  \<open>Promise.all\<close>.
\<close>

record world =
  env :: "string \<Rightarrow> string option"
  eventName :: string
  runId :: jsNumber
  getInput :: "string \<Rightarrow> string"
  getBooleanInput :: "string \<Rightarrow> string + bool"
  clock :: "site \<Rightarrow> string"
  dateNow :: nat
  repos_get :: "string option \<Rightarrow> string option \<Rightarrow> string + string"
  repos_getContent ::
    "string option \<Rightarrow> string option \<Rightarrow> string \<Rightarrow> string option \<Rightarrow> string + contentData"
  latency :: "string \<Rightarrow> nat"
  path_join :: "string \<Rightarrow> string \<Rightarrow> string"
  existsSync :: "string \<Rightarrow> bool"
  readFileSync :: "string \<Rightarrow> string + string"
  minimatch :: "string \<Rightarrow> string \<Rightarrow> bool"
  base64ToUtf8 :: "string \<Rightarrow> string"
  invokeAgent :: "agentCall \<Rightarrow> string + string"

section \<open>Control flow: log, early return, exception\<close>

datatype 'a completion = Normal 'a | Returned | Thrown string

type_synonym 'a action = "event list \<times> 'a completion"

definition emit :: "event list \<Rightarrow> unit action" where
  "emit es = (es, Normal ())"

definition returnNow :: "'a action" where
  "returnNow = ([], Returned)"

definition await :: "string + 'a \<Rightarrow> 'a action" where
  "await r = (case r of Inl msg \<Rightarrow> ([], Thrown msg) | Inr x \<Rightarrow> ([], Normal x))"

definition bind :: "'a action \<Rightarrow> ('a \<Rightarrow> 'b action) \<Rightarrow> 'b action" where
  "bind m f =
     (case m of
        (es, Normal x) \<Rightarrow> (case f x of (es', r) \<Rightarrow> (es @ es', r))
      | (es, Returned) \<Rightarrow> (es, Returned)
      | (es, Thrown msg) \<Rightarrow> (es, Thrown msg))"

definition getTimestamp :: "world \<Rightarrow> site \<Rightarrow> string" where
  "getTimestamp w s = clock w s"

definition stamp :: "world \<Rightarrow> site \<Rightarrow> string" where
  "stamp w s = ''['' @ getTimestamp w s @ '']''"

section \<open>The ignore rule set (index.js, lines 28-29 and 104-118)\<close>

definition ignorePatternsOf :: "string \<Rightarrow> string list" where
  "ignorePatternsOf raw =
     filter (\<lambda>pattern. pattern \<noteq> []) (map trim (splitStr CHR '','' raw))"

definition gitignorePatternsOf :: "string \<Rightarrow> string list" where
  "gitignorePatternsOf text =
     filter (\<lambda>line. line \<noteq> [] \<and> \<not> startsWith line ''#'')
       (map trim (splitStr (CHR 0x0A) text))"

text \<open>Line 118: \<open>[...ignorePatterns, ...gitignorePatterns]\<close>.\<close>

definition mergePatterns :: "string list \<Rightarrow> string list \<Rightarrow> string list" where
  "mergePatterns ignorePatterns gitignorePatterns = ignorePatterns @ gitignorePatterns"

text \<open>
  The rule set of a run as a function of the caller's pattern string and of the text of
  the ignore file (\<open>None\<close> when the file does not exist, where \<open>gitignorePatterns\<close> stays
  the empty array of line 105).
\<close>

definition ruleSetOf :: "string \<Rightarrow> string option \<Rightarrow> string list" where
  "ruleSetOf raw ignoreFile =
     mergePatterns (ignorePatternsOf raw)
       (case ignoreFile of None \<Rightarrow> [] | Some text \<Rightarrow> gitignorePatternsOf text)"

definition isIgnored :: "world \<Rightarrow> string \<Rightarrow> string list \<Rightarrow> bool" where
  "isIgnored w name ignorePatterns = list_ex (\<lambda>pattern. minimatch w name pattern) ignorePatterns"

section \<open>processFile (index.js, lines 167-187)\<close>

record accum =
  relevantCode :: "string list"
  relevantDiffs :: "string list"
  fileLog :: "event list"

definition contentBlock :: "string \<Rightarrow> string \<Rightarrow> string" where
  "contentBlock name content =
     ''Content of '' @ name @ ''\<newline>```\<newline>'' @ content @ ''\<newline>```\<newline>''"

definition statusEntry :: "FileRecord \<Rightarrow> string" where
  "statusEntry file = ''File: '' @ filename file @ '' (Status: '' @ status file @ '')\<newline>''"

text \<open>\<open>fileContent?.type === 'file'\<close>: an array has no \<open>type\<close>.\<close>

fun isFileItem :: "contentData \<Rightarrow> bool" where
  "isFileItem (Listing _) = False"
| "isFileItem (Single it) = (itemType it = ''file'')"

fun contentOf :: "contentData \<Rightarrow> string" where
  "contentOf (Listing _) = []"
| "contentOf (Single it) = itemContent it"

definition processFile ::
  "world \<Rightarrow> FileRecord \<Rightarrow> string list \<Rightarrow> string option \<Rightarrow> string option \<Rightarrow> string \<Rightarrow>
   accum \<Rightarrow> accum" where
  "processFile w file ignorePatterns owner repo evName acc =
     (if \<not> isIgnored w (filename file) ignorePatterns then
        (let acc1 =
           (case repos_getContent w owner repo (filename file) None of
              Inr fileContent \<Rightarrow>
                (if isFileItem fileContent then
                   (let content = base64ToUtf8 w (contentOf fileContent) in
                    acc\<lparr>relevantCode :=
                          relevantCode acc @ [contentBlock (filename file) content],
                        fileLog :=
                          fileLog acc @
                          [CoreInfo (stamp w (FileLine 178 (filename file)) @
                             '' Added file content for analysis: '' @ filename file @
                             '' (Status: '' @ status file @ '')'')]\<rparr>)
                 else acc)
            | Inl message \<Rightarrow>
                acc\<lparr>fileLog :=
                      fileLog acc @
                      [CoreError (stamp w (FileLine 181 (filename file)) @
                         '' Error fetching content for file '' @ filename file @ '': '' @
                         message)]\<rparr>)
         in acc1\<lparr>relevantDiffs := relevantDiffs acc1 @ [statusEntry file]\<rparr>)
      else acc)"

text \<open>
  \<open>Promise.all(changedFiles.map(file => processFile(...)))\<close>: every call runs up to its
  request at once, and the rest of each call (the pushes to the two arrays) runs when its
  request settles, one call at a time. A call for an ignored file pushes nothing.
\<close>

definition settleOrder :: "world \<Rightarrow> FileRecord list \<Rightarrow> FileRecord list" where
  "settleOrder w files = sort_key (\<lambda>file. latency w (filename file)) files"

definition processAll ::
  "world \<Rightarrow> FileRecord list \<Rightarrow> string list \<Rightarrow> string option \<Rightarrow> string option \<Rightarrow> string \<Rightarrow>
   accum" where
  "processAll w changedFiles ignorePatterns owner repo evName =
     foldl (\<lambda>acc file. processFile w file ignorePatterns owner repo evName acc)
       \<lparr>relevantCode = [], relevantDiffs = [], fileLog = []\<rparr>
       (settleOrder w changedFiles)"

section \<open>The prompt (index.js, lines 132-135)\<close>

definition buildPrompt :: "string list \<Rightarrow> string list \<Rightarrow> string \<Rightarrow> string" where
  "buildPrompt code diffs actionPrompt =
     (let diffsPrompt = ''Changes:\<newline>'' @ join [] diffs in
      if length code \<noteq> 0 then
        ''Content of Affected Files:\<newline>'' @ join [] code @
        ''\<newline>Use the files above to provide context on the changes made.\<newline>'' @
        diffsPrompt @ ''\<newline>'' @ actionPrompt
      else diffsPrompt @ ''\<newline>'' @ actionPrompt)"

section \<open>formatMarkdownAnalysis (index.js, lines 190-199)\<close>

definition fileSummaryLine :: "FileRecord \<Rightarrow> string" where
  "fileSummaryLine file = ''- **'' @ filename file @ ''**: '' @ status file"

definition formatMarkdownAnalysis ::
  "world \<Rightarrow> string \<Rightarrow> string \<Rightarrow> nat \<Rightarrow> nat \<Rightarrow> FileRecord list \<Rightarrow> string" where
  "formatMarkdownAnalysis w response eventType filesAnalyzed diffsAnalyzed changedFiles =
     (let fileSummary = join ''\<newline>'' (map fileSummaryLine changedFiles);
          eventTypeDisplay =
            (if eventType = ''workflow_dispatch'' then ''Workflow Dispatch''
             else ''Scheduled Run'');
          timestamp = clock w (Line 196)
      in ''## Analysis for '' @ eventTypeDisplay @ '' (Time: '' @ timestamp @
         '')\<newline>\<newline>### Files Analyzed: '' @ showNat filesAnalyzed @
         ''\<newline>### Diffs Analyzed: '' @ showNat diffsAnalyzed @
         ''\<newline>\<newline>### Files Processed:\<newline>'' @ fileSummary @
         ''\<newline>\<newline>'' @ response)"

section \<open>main of index.js (lines 12-163)\<close>

text \<open>
  \<open>body\<close> is the \<open>try\<close> block of \<open>main\<close> and \<open>main\<close> the function of lines 12-163. The two
  statements of lines 9-10, which run when the module is loaded and before \<open>main\<close> is
  called, are part of \<open>program\<close> below.
\<close>

definition requiredEnvVars :: "string list" where
  "requiredEnvVars = [''GITHUB_TOKEN'', ''GITHUB_REPOSITORY'']"

text \<open>\<open>!process.env[varName]\<close>: an unset variable and the empty string are both falsy.\<close>

fun falsy :: "string option \<Rightarrow> bool" where
  "falsy None = True"
| "falsy (Some s) = (s = [])"

text \<open>\<open>core.getInput('memory_id').trim() || undefined\<close>\<close>

definition memoryIdOf :: "string \<Rightarrow> string option" where
  "memoryIdOf raw = (if trim raw = [] then None else Some (trim raw))"

record runState =
  actionPrompt :: string
  agentId :: string
  agentAliasId :: string
  debug :: bool
  memoryId :: "string option"
  sessionId :: string
  changedFiles :: "FileRecord list"
  allIgnorePatterns :: "string list"
  gathered :: accum

text \<open>
  Lines 49-68 and 76-95, the same in both branches: the default branch, the listing of
  the repository root at that branch, and its items of type \<open>file\<close> as FileRecords. A
  response that is not an array has no \<open>filter\<close> method.
\<close>

definition snapshot :: "world \<Rightarrow> string option \<Rightarrow> string option \<Rightarrow> FileRecord list action" where
  "snapshot w owner repo =
     bind (await (repos_get w owner repo)) (\<lambda>defaultBranch.
     bind (await (repos_getContent w owner repo [] (Some defaultBranch))) (\<lambda>repoContents.
     (case repoContents of
        Single _ \<Rightarrow> ([], Thrown ''repoContents.filter is not a function'')
      | Listing items \<Rightarrow>
          ([], Normal (map (\<lambda>file. \<lparr>filename = itemPath file, status = ''analyzed''\<rparr>)
                        (filter (\<lambda>it. itemType it = ''file'') items))))))"

definition enumerate ::
  "world \<Rightarrow> string option \<Rightarrow> string option \<Rightarrow> (string \<times> FileRecord list) action" where
  "enumerate w owner repo =
     (if eventName w = ''workflow_dispatch'' then
        (let workflowId = runId w;
             sessionId = ''workflow-'' @ numberToString workflowId in
         bind (emit [CoreInfo (stamp w (Line 47) @ '' Processing workflow_dispatch (ID: '' @
                       numberToString workflowId @ '') in repository '' @ interpolate owner @
                       ''/'' @ interpolate repo)]) (\<lambda>_.
         bind (snapshot w owner repo) (\<lambda>changedFiles.
         ([], Normal (sessionId, changedFiles)))))
      else if eventName w = ''schedule'' then
        (let scheduleId = stripNonDigits (clock w (Line 72));
             sessionId = ''schedule-'' @ scheduleId in
         bind (emit [CoreInfo (stamp w (Line 74) @ '' Processing scheduled event (ID: '' @
                       scheduleId @ '') in repository '' @ interpolate owner @
                       ''/'' @ interpolate repo)]) (\<lambda>_.
         bind (snapshot w owner repo) (\<lambda>changedFiles.
         ([], Normal (sessionId, changedFiles)))))
      else
        bind (emit [CoreSetFailed (''Unsupported event type: '' @ eventName w @
                      ''. This action only supports workflow_dispatch and schedule events.'')])
          (\<lambda>_. returnNow))"

text \<open>
  Lines 104-115. \<open>path.join\<close> throws on an argument that is not a string, so an unset
  \<open>GITHUB_WORKSPACE\<close> ends the run in the \<open>catch\<close> block.
\<close>

definition loadGitignore :: "world \<Rightarrow> bool \<Rightarrow> string list action" where
  "loadGitignore w dbg =
     (case env w ''GITHUB_WORKSPACE'' of
        None \<Rightarrow>
          ([], Thrown (''The '' @ [CHR 0x22] @ ''path'' @ [CHR 0x22] @
                        '' argument must be of type string. Received undefined''))
      | Some workspace \<Rightarrow>
          (let gitignorePath = path_join w workspace ''.gitignore'' in
           if existsSync w gitignorePath then
             bind (await (readFileSync w gitignorePath)) (\<lambda>text.
             (let gitignorePatterns = gitignorePatternsOf text in
              bind (emit (if dbg
                          then [CoreInfo (stamp w (Line 113) @
                                  '' Loaded .gitignore patterns:\<newline>'' @
                                  join '', '' gitignorePatterns)]
                          else [])) (\<lambda>_.
              ([], Normal gitignorePatterns))))
           else ([], Normal [])))"

text \<open>Lines 28-123: inputs, enumeration, rule set and aggregation.\<close>

definition prepare :: "world \<Rightarrow> runState action" where
  "prepare w =
     (let ignorePatterns = ignorePatternsOf (getInput w ''ignore_patterns'');
          prompt = trim (getInput w ''action_prompt'');
          agent = trim (getInput w ''agent_id'');
          alias = trim (getInput w ''agent_alias_id'') in
      bind (await (getBooleanInput w ''debug'')) (\<lambda>dbg.
      (let memory = memoryIdOf (getInput w ''memory_id'') in
       bind (case env w ''GITHUB_REPOSITORY'' of
               None \<Rightarrow>
                 ([], Thrown ''Cannot read properties of undefined (reading 'split')'')
             | Some githubRepository \<Rightarrow> ([], Normal (splitStr CHR ''/'' githubRepository)))
         (\<lambda>parts.
       (let owner = element parts 0;
            repo = element parts 1 in
        bind (enumerate w owner repo) (\<lambda>(session, files).
        bind (emit [CoreInfo (stamp w (Line 102) @ '' Retrieved '' @
                      showNat (length files) @ '' changed files'')]) (\<lambda>_.
        bind (loadGitignore w dbg) (\<lambda>gitignorePatterns.
        (let patterns = mergePatterns ignorePatterns gitignorePatterns;
             acc = processAll w files patterns owner repo (eventName w) in
         (fileLog acc,
          Normal \<lparr>actionPrompt = prompt, agentId = agent, agentAliasId = alias,
                  debug = dbg, memoryId = memory, sessionId = session,
                  changedFiles = files, allIgnorePatterns = patterns,
                  gathered = acc\<rparr>))))))))))"

text \<open>
  Lines 125-159. The test \<open>typeof prompt !== 'string'\<close> of line 138 is always false for a
  template literal and has no branch here.
\<close>

definition conclude :: "world \<Rightarrow> runState \<Rightarrow> unit action" where
  "conclude w st =
     (let code = relevantCode (gathered st);
          diffs = relevantDiffs (gathered st) in
      if length diffs = 0 \<and> length code = 0 then
        bind (emit [CoreWarning (stamp w (Line 127) @
                      '' No relevant files or diffs found for analysis.'')])
          (\<lambda>_. returnNow)
      else
        (let prompt = buildPrompt code diffs (actionPrompt st);
             call = \<lparr>callAgentId = agentId st, callAgentAliasId = agentAliasId st,
                     callSessionId = sessionId st, callPrompt = prompt,
                     callMemoryId = memoryId st\<rparr> in
         bind (emit ((if debug st
                      then [CoreInfo (stamp w (Line 144) @
                              '' Generated prompt for Bedrock Agent:\<newline>'' @ prompt)]
                      else []) @
                     [CoreInfo (stamp w (Line 148) @
                        '' Invoking Bedrock Agent with session ID: '' @ sessionId st @
                        '' and memory ID: '' @ interpolate (memoryId st)),
                      InvokeAgent call])) (\<lambda>_.
         bind (await (invokeAgent w call)) (\<lambda>agentResponse.
         emit ((if debug st
                then [CoreInfo (stamp w (Line 152) @ '' Bedrock Agent response:\<newline>'' @
                        agentResponse)]
                else []) @
               [CoreInfo (stamp w (Line 156) @ '' Printing analysis for '' @ eventName w @
                  '' event''),
                ConsoleInfo (formatMarkdownAnalysis w agentResponse (eventName w)
                  (length code) (length diffs) (changedFiles st)),
                CoreInfo (stamp w (Line 159) @ '' Analysis output printed to console'')])))))"

definition body :: "world \<Rightarrow> unit action" where
  "body w =
     bind (emit [CoreInfo (stamp w (Line 14) @ '' Starting GitHub Action'')]) (\<lambda>_.
     if list_ex (\<lambda>varName. falsy (env w varName)) requiredEnvVars then
       bind (emit [CoreSetFailed (''Error: Missing required environment variables: '' @
                     join '', '' requiredEnvVars @ ''.'')]) (\<lambda>_. returnNow)
     else bind (prepare w) (conclude w))"

text \<open>The \<open>try\<close>/\<open>catch\<close> around the body: an exception becomes the failure signal.\<close>

definition main :: "world \<Rightarrow> event list" where
  "main w =
     (case body w of
        (es, Thrown message) \<Rightarrow>
          es @ [CoreSetFailed (stamp w (Line 161) @ '' Error: '' @ message)]
      | (es, _) \<Rightarrow> es)"

section \<open>The program of index.js (lines 9-10 and 207)\<close>

text \<open>
  Loading the module first builds the two clients. \<open>github.getOctokit(token)\<close> of line 9
  throws \<open>Parameter token or opts.auth is required\<close> for a token that is unset or empty;
  the exception is not caught, so the process ends there and \<open>main\<close> is never called. The
  constructor of line 10 belongs to a file that is not among the sources and is taken to
  return. Otherwise line 207 calls \<open>main\<close>.
\<close>

datatype outcome = LoadFailed string | Ran "event list"

definition program :: "world \<Rightarrow> outcome" where
  "program w =
     (if falsy (env w ''GITHUB_TOKEN'')
      then LoadFailed ''Parameter token or opts.auth is required''
      else Ran (main w))"

fun traceOf :: "outcome \<Rightarrow> event list" where
  "traceOf (LoadFailed _) = []"
| "traceOf (Ran es) = es"

section \<open>main of the direct entry point (second source file, lines 7-37)\<close>

definition bodyDirect :: "world \<Rightarrow> unit action" where
  "bodyDirect w =
     bind (emit [CoreInfo (stamp w (Line 9) @ '' Starting GitHub Action'')]) (\<lambda>_.
     (let prompt = trim (getInput w ''action_prompt'');
          agent = trim (getInput w ''agent_id'');
          alias = trim (getInput w ''agent_alias_id'');
          memory = memoryIdOf (getInput w ''memory_id'') in
      bind (await (getBooleanInput w ''debug'')) (\<lambda>dbg.
      (let session = ''session-'' @ showNat (dateNow w);
           call = \<lparr>callAgentId = agent, callAgentAliasId = alias, callSessionId = session,
                   callPrompt = prompt, callMemoryId = memory\<rparr> in
       bind (emit ((if dbg
                    then [CoreInfo (stamp w (Line 22) @ '' Using prompt: '' @ prompt),
                          CoreInfo (stamp w (Line 23) @ '' Session ID: '' @ session)]
                    else []) @
                   [CoreInfo (stamp w (Line 27) @ '' Invoking Bedrock Agent''),
                    InvokeAgent call])) (\<lambda>_.
       bind (await (invokeAgent w call)) (\<lambda>agentResponse.
       emit [ConsoleInfo (''## Bedrock Agent Response\<newline>\<newline>'' @ agentResponse),
             CoreInfo (stamp w (Line 32) @ '' Action completed successfully'')]))))))"

definition mainDirect :: "world \<Rightarrow> event list" where
  "mainDirect w =
     (case bodyDirect w of
        (es, Thrown message) \<Rightarrow>
          es @ [CoreSetFailed (stamp w (Line 35) @ '' Error: '' @ message)]
      | (es, _) \<Rightarrow> es)"

section \<open>Reading a trace\<close>

fun agentCalls :: "event list \<Rightarrow> agentCall list" where
  "agentCalls [] = []"
| "agentCalls (InvokeAgent c # es) = c # agentCalls es"
| "agentCalls (_ # es) = agentCalls es"

fun reports :: "event list \<Rightarrow> string list" where
  "reports [] = []"
| "reports (ConsoleInfo r # es) = r # reports es"
| "reports (_ # es) = reports es"

fun failures :: "event list \<Rightarrow> string list" where
  "failures [] = []"
| "failures (CoreSetFailed m # es) = m # failures es"
| "failures (_ # es) = failures es"

fun warnings :: "event list \<Rightarrow> string list" where
  "warnings [] = []"
| "warnings (CoreWarning m # es) = m # warnings es"
| "warnings (_ # es) = warnings es"

fun isTraceLine :: "event \<Rightarrow> bool" where
  "isTraceLine (CoreInfo _) = True"
| "isTraceLine _ = False"

text \<open>The trace without its \<open>core.info\<close> lines.\<close>

definition quiet :: "event list \<Rightarrow> event list" where
  "quiet es = filter (\<lambda>e. \<not> isTraceLine e) es"

section \<open>Observations of the environment used in the statements\<close>

text \<open>
  The content request for a path succeeded and returned a single item of type \<open>file\<close>,
  and the text decoded from that item.
\<close>

definition fetchedFile :: "world \<Rightarrow> string option \<Rightarrow> string option \<Rightarrow> string \<Rightarrow> bool" where
  "fetchedFile w owner repo name =
     (case repos_getContent w owner repo name None of
        Inl _ \<Rightarrow> False
      | Inr d \<Rightarrow> isFileItem d)"

definition fetchedText :: "world \<Rightarrow> string option \<Rightarrow> string option \<Rightarrow> string \<Rightarrow> string" where
  "fetchedText w owner repo name =
     (case repos_getContent w owner repo name None of
        Inl _ \<Rightarrow> []
      | Inr d \<Rightarrow> base64ToUtf8 w (contentOf d))"

text \<open>Two completions of \<open>prepare\<close> that differ at most in the debug flag they carry.\<close>

fun sameButDebug :: "runState completion \<Rightarrow> runState completion \<Rightarrow> bool" where
  "sameButDebug (Normal s) (Normal t) = (\<exists>d. t = s\<lparr>debug := d\<rparr>)"
| "sameButDebug Returned Returned = True"
| "sameButDebug (Thrown m) (Thrown n) = (m = n)"
| "sameButDebug _ _ = False"

text \<open>Line 18: some required environment variable is unset or empty.\<close>

definition envMissing :: "world \<Rightarrow> bool" where
  "envMissing w = list_ex (\<lambda>varName. falsy (env w varName)) requiredEnvVars"

text \<open>The arguments line 149 passes to the agent, read off the state of the run.\<close>

definition callOf :: "runState \<Rightarrow> agentCall" where
  "callOf st =
     \<lparr>callAgentId = agentId st, callAgentAliasId = agentAliasId st,
      callSessionId = sessionId st,
      callPrompt = buildPrompt (relevantCode (gathered st)) (relevantDiffs (gathered st))
                     (actionPrompt st),
      callMemoryId = memoryId st\<rparr>"

text \<open>The test of line 126, and a run that reaches it with both lists empty.\<close>

definition emptyContext :: "runState \<Rightarrow> bool" where
  "emptyContext st = (relevantDiffs (gathered st) = [] \<and> relevantCode (gathered st) = [])"

definition reachesEmptyContext :: "world \<Rightarrow> bool" where
  "reachesEmptyContext w =
     (\<not> envMissing w \<and>
      (case prepare w of (es, Normal st) \<Rightarrow> emptyContext st | _ \<Rightarrow> False))"

text \<open>
  The shape of \<open>Date.prototype.toISOString\<close> for the years 0000 to 9999,
  \<open>YYYY-MM-DDTHH:mm:ss.sssZ\<close>: seventeen digits laid out between fixed separators.
\<close>

definition isoLayout :: "string \<Rightarrow> string" where
  "isoLayout ds =
     take 4 ds @ ''-'' @ take 2 (drop 4 ds) @ ''-'' @ take 2 (drop 6 ds) @ ''T'' @
     take 2 (drop 8 ds) @ '':'' @ take 2 (drop 10 ds) @ '':'' @ take 2 (drop 12 ds) @ ''.'' @
     take 3 (drop 14 ds) @ ''Z''"

definition isoTimestamp :: "string \<Rightarrow> bool" where
  "isoTimestamp s = (length (stripNonDigits s) = 17 \<and> s = isoLayout (stripNonDigits s))"

section \<open>The rule set as the specification words it\<close>

text \<open>
  The specification's construction of the rule set, written independently of the code:
  trimming removes the leading white space and then the trailing white space, splitting
  cuts the text at every separator, a caller entry is kept when it is not empty, and a
  line of the ignore file is kept when it is not empty and does not start with \<open>#\<close>.
\<close>

fun spec_stripEnd :: "string \<Rightarrow> string" where
  "spec_stripEnd [] = []"
| "spec_stripEnd (c # cs) =
     (if isWhiteSpace c \<and> spec_stripEnd cs = [] then [] else c # spec_stripEnd cs)"

definition spec_trimmed :: "string \<Rightarrow> string" where
  "spec_trimmed s = spec_stripEnd (dropWhile isWhiteSpace s)"

definition spec_pieces :: "char \<Rightarrow> string \<Rightarrow> string list" where
  "spec_pieces sep s =
     foldr (\<lambda>c acc. if c = sep then [] # acc
                     else (case acc of [] \<Rightarrow> [[c]] | p # ps \<Rightarrow> (c # p) # ps)) s [[]]"

fun spec_isComment :: "string \<Rightarrow> bool" where
  "spec_isComment [] = False"
| "spec_isComment (c # cs) = (c = CHR ''#'')"

definition spec_callerRules :: "string \<Rightarrow> string list" where
  "spec_callerRules raw =
     filter (\<lambda>e. e \<noteq> []) (map spec_trimmed (spec_pieces CHR '','' raw))"

definition spec_fileRules :: "string \<Rightarrow> string list" where
  "spec_fileRules text =
     filter (\<lambda>l. \<not> spec_isComment l)
       (filter (\<lambda>l. l \<noteq> []) (map spec_trimmed (spec_pieces (CHR 0x0A) text)))"

definition spec_ruleSet :: "string \<Rightarrow> string option \<Rightarrow> string list" where
  "spec_ruleSet raw ignoreFile =
     spec_callerRules raw @
     (case ignoreFile of None \<Rightarrow> [] | Some text \<Rightarrow> spec_fileRules text)"

section \<open>Example environment\<close>

text \<open>
  A stand-in for \<open>minimatch\<close> on the two kinds of pattern the examples use: \<open>*suffix\<close>
  within one path segment, and a literal name.
\<close>

definition starMatch :: "string \<Rightarrow> string \<Rightarrow> bool" where
  "starMatch name pattern =
     (case pattern of
        [] \<Rightarrow> name = []
      | c # ext \<Rightarrow>
          if c = CHR ''*''
          then drop (length name - length ext) name = ext \<and> CHR ''/'' \<notin> set name
          else name = pattern)"

text \<open>
  A dispatch run on a repository whose root holds \<open>a.txt\<close>, \<open>b.log\<close> and \<open>c.bin\<close>; the
  caller ignores \<open>*.log\<close>, the content of \<open>a.txt\<close> is \<open>hello\<close>, and the request for
  \<open>c.bin\<close> fails.
\<close>

definition demoWorld :: world where
  "demoWorld =
     \<lparr>env = [''GITHUB_TOKEN'' \<mapsto> ''token'', ''GITHUB_REPOSITORY'' \<mapsto> ''octo/demo'',
             ''GITHUB_WORKSPACE'' \<mapsto> ''/ws''],
      eventName = ''workflow_dispatch'',
      runId = SafeInteger 42,
      getInput = (\<lambda>name. if name = ''ignore_patterns'' then ''*.log''
                          else if name = ''action_prompt'' then '' Review ''
                          else if name = ''memory_id'' then ''  ''
                          else []),
      getBooleanInput = (\<lambda>_. Inr False),
      clock = (\<lambda>_. ''2024-05-06T07:08:09.123Z''),
      dateNow = 1714979289123,
      repos_get = (\<lambda>_ _. Inr ''main''),
      repos_getContent = (\<lambda>_ _ path _.
         if path = [] then
           Inr (Listing [\<lparr>itemType = ''file'', itemPath = ''a.txt'', itemContent = []\<rparr>,
                         \<lparr>itemType = ''file'', itemPath = ''b.log'', itemContent = []\<rparr>,
                         \<lparr>itemType = ''file'', itemPath = ''c.bin'', itemContent = []\<rparr>])
         else if path = ''a.txt'' then
           Inr (Single \<lparr>itemType = ''file'', itemPath = ''a.txt'',
                         itemContent = ''aGVsbG8=''\<rparr>)
         else Inl ''Not Found''),
      latency = (\<lambda>_. 0),
      path_join = (\<lambda>dir name. dir @ ''/'' @ name),
      existsSync = (\<lambda>_. False),
      readFileSync = (\<lambda>_. Inl ''ENOENT''),
      minimatch = starMatch,
      base64ToUtf8 = (\<lambda>text. if text = ''aGVsbG8='' then ''hello'' else []),
      invokeAgent = (\<lambda>_. Inr ''LGTM'')\<rparr>"

section \<open>Facts about strings and traces\<close>

lemma join_empty_sep: "join [] xs = concat xs"
  by (induction xs rule: induct_list012) simp_all

lemma agentCalls_append: "agentCalls (xs @ ys) = agentCalls xs @ agentCalls ys"
  by (induction xs rule: agentCalls.induct) simp_all

lemma reports_append: "reports (xs @ ys) = reports xs @ reports ys"
  by (induction xs rule: reports.induct) simp_all

lemma failures_append: "failures (xs @ ys) = failures xs @ failures ys"
  by (induction xs rule: failures.induct) simp_all

lemma warnings_append: "warnings (xs @ ys) = warnings xs @ warnings ys"
  by (induction xs rule: warnings.induct) simp_all

lemmas trace_append = agentCalls_append reports_append failures_append warnings_append

lemma quiet_append: "quiet (xs @ ys) = quiet xs @ quiet ys"
  by (simp add: quiet_def)

lemma quiet_simps:
  "quiet [] = []"
  "quiet (CoreInfo m # es) = quiet es"
  "quiet (CoreWarning m # es) = CoreWarning m # quiet es"
  "quiet (CoreError m # es) = CoreError m # quiet es"
  "quiet (CoreSetFailed m # es) = CoreSetFailed m # quiet es"
  "quiet (ConsoleInfo m # es) = ConsoleInfo m # quiet es"
  "quiet (InvokeAgent c # es) = InvokeAgent c # quiet es"
  by (simp_all add: quiet_def)

lemma agentCalls_quiet: "agentCalls (quiet es) = agentCalls es"
  by (induction es rule: agentCalls.induct) (simp_all add: quiet_simps)

lemma reports_quiet: "reports (quiet es) = reports es"
  by (induction es rule: reports.induct) (simp_all add: quiet_simps)

lemma failures_quiet: "failures (quiet es) = failures es"
  by (induction es rule: failures.induct) (simp_all add: quiet_simps)

lemma warnings_quiet: "warnings (quiet es) = warnings es"
  by (induction es rule: warnings.induct) (simp_all add: quiet_simps)

text \<open>The digits of \<open>showNat\<close> as a table, for evaluation.\<close>

lemma digitChar_table: "d < 10 \<Longrightarrow> digitChar d = ''0123456789'' ! d"
proof -
  assume "d < 10"
  then have "d = 0 \<or> d = 1 \<or> d = 2 \<or> d = 3 \<or> d = 4 \<or> d = 5 \<or> d = 6 \<or> d = 7 \<or>
      d = 8 \<or> d = 9"
    by arith
  then show ?thesis
    by (elim disjE; hypsubst; code_simp)
qed

text \<open>Decimal rendering is injective: different numbers have different digits.\<close>

lemma of_char_digitChar: "d < 10 \<Longrightarrow> of_char (digitChar d) = (48 + d :: nat)"
  unfolding digitChar_def by (subst of_char_of) simp

lemma digitChar_inj: "a < 10 \<Longrightarrow> b < 10 \<Longrightarrow> digitChar a = digitChar b \<Longrightarrow> a = b"
proof -
  assume a: "a < 10" and b: "b < 10" and e: "digitChar a = digitChar b"
  from e have "(of_char (digitChar a) :: nat) = of_char (digitChar b)" by (rule arg_cong)
  then show "a = b"
    by (simp only: of_char_digitChar[OF a] of_char_digitChar[OF b] add_left_cancel)
qed

lemma showNat_nonempty: "showNat n \<noteq> []"
  by (subst showNat.simps) simp

lemma showNat_inj: "showNat n = showNat m \<Longrightarrow> n = m"
proof (induction n arbitrary: m rule: showNat.induct)
  case (1 n)
  note eq = "1.prems"
  have sn: "showNat n = (if n < 10 then [digitChar n]
      else showNat (n div 10) @ [digitChar (n mod 10)])"
    by (rule showNat.simps)
  have sm: "showNat m = (if m < 10 then [digitChar m]
      else showNat (m div 10) @ [digitChar (m mod 10)])"
    by (rule showNat.simps)
  show ?case
  proof (cases "n < 10")
    case small: True
    show ?thesis
    proof (cases "m < 10")
      case True
      with small eq sn sm have "digitChar n = digitChar m" by simp
      with small True show ?thesis by (rule digitChar_inj)
    next
      case False
      with small eq sn sm have "[digitChar n] = showNat (m div 10) @ [digitChar (m mod 10)]"
        by simp
      then have "showNat (m div 10) = []" by simp
      then show ?thesis using showNat_nonempty by blast
    qed
  next
    case big: False
    show ?thesis
    proof (cases "m < 10")
      case True
      with big eq sn sm have "showNat (n div 10) @ [digitChar (n mod 10)] = [digitChar m]"
        by simp
      then have "showNat (n div 10) = []" by simp
      then show ?thesis using showNat_nonempty by blast
    next
      case False
      with big eq sn sm have
        "showNat (n div 10) @ [digitChar (n mod 10)] =
         showNat (m div 10) @ [digitChar (m mod 10)]"
        by simp
      then have e: "showNat (n div 10) = showNat (m div 10)"
          and d: "digitChar (n mod 10) = digitChar (m mod 10)"
        by simp_all
      from "1.IH"[OF big e] have q: "n div 10 = m div 10" .
      have "n mod 10 < 10" "m mod 10 < 10" by simp_all
      then have r: "n mod 10 = m mod 10" using d by (rule digitChar_inj)
      from q r show ?thesis by (metis div_mult_mod_eq)
    qed
  qed
qed

text \<open>The definitions a concrete run unfolds to.\<close>

lemmas run_defs =
  main_def body_def prepare_def conclude_def enumerate_def snapshot_def loadGitignore_def
  mainDirect_def bodyDirect_def
  bind_def await_def emit_def returnNow_def stamp_def getTimestamp_def requiredEnvVars_def
  memoryIdOf_def mergePatterns_def ruleSetOf_def processAll_def settleOrder_def
  processFile_def isIgnored_def ignorePatternsOf_def gitignorePatternsOf_def startsWith_def
  splitStr_def trim_def isWhiteSpace_def buildPrompt_def formatMarkdownAnalysis_def
  fileSummaryLine_def statusEntry_def contentBlock_def fetchedFile_def fetchedText_def
  showNat.simps digitChar_table Let_def starMatch_def program_def

section \<open>processFile and the aggregation\<close>

lemma processFile_ignored:
  "isIgnored w (filename file) pats \<Longrightarrow> processFile w file pats owner repo ev acc = acc"
  by (simp add: processFile_def)

lemma processFile_diffs:
  "\<not> isIgnored w (filename file) pats \<Longrightarrow>
   relevantDiffs (processFile w file pats owner repo ev acc) =
   relevantDiffs acc @ [statusEntry file]"
  by (simp add: processFile_def Let_def split: sum.splits)

lemma processFile_code:
  "\<not> isIgnored w (filename file) pats \<Longrightarrow>
   relevantCode (processFile w file pats owner repo ev acc) =
   relevantCode acc @
   (if fetchedFile w owner repo (filename file)
    then [contentBlock (filename file) (fetchedText w owner repo (filename file))]
    else [])"
  by (simp add: processFile_def fetchedFile_def fetchedText_def Let_def split: sum.splits)

lemma fetchedFile_iff:
  "fetchedFile w owner repo name \<longleftrightarrow>
   (\<exists>it. repos_getContent w owner repo name None = Inr (Single it) \<and> itemType it = ''file'')"
proof (cases "repos_getContent w owner repo name None")
  case (Inl msg)
  then show ?thesis by (simp add: fetchedFile_def)
next
  case (Inr d)
  then show ?thesis by (cases d) (simp_all add: fetchedFile_def)
qed

lemma foldl_processFile_diffs:
  "relevantDiffs (foldl (\<lambda>acc file. processFile w file pats owner repo ev acc) acc0 fs) =
   relevantDiffs acc0 @
   map statusEntry (filter (\<lambda>f. \<not> isIgnored w (filename f) pats) fs)"
  by (induction fs arbitrary: acc0) (simp_all add: processFile_diffs processFile_ignored)

lemma foldl_processFile_code:
  "relevantCode (foldl (\<lambda>acc file. processFile w file pats owner repo ev acc) acc0 fs) =
   relevantCode acc0 @
   map (\<lambda>f. contentBlock (filename f) (fetchedText w owner repo (filename f)))
     (filter (\<lambda>f. \<not> isIgnored w (filename f) pats \<and> fetchedFile w owner repo (filename f)) fs)"
proof (induction fs arbitrary: acc0)
  case Nil
  show ?case by simp
next
  case (Cons a fs)
  show ?case
    by (cases "isIgnored w (filename a) pats")
       (simp_all add: Cons processFile_code processFile_ignored)
qed

lemma foldl_processFile_filter:
  "foldl (\<lambda>acc file. processFile w file pats owner repo ev acc) acc0 fs =
   foldl (\<lambda>acc file. processFile w file pats owner repo ev acc) acc0
     (filter (\<lambda>f. \<not> isIgnored w (filename f) pats) fs)"
  by (induction fs arbitrary: acc0) (simp_all add: processFile_ignored)

lemma processAll_filter:
  "processAll w files pats owner repo ev =
   processAll w (filter (\<lambda>f. \<not> isIgnored w (filename f) pats) files) pats owner repo ev"
  unfolding processAll_def settleOrder_def
  by (subst foldl_processFile_filter) (simp add: filter_sort foldl_processFile_filter[symmetric])

lemma processAll_diffs:
  "relevantDiffs (processAll w files pats owner repo ev) =
   map statusEntry (filter (\<lambda>f. \<not> isIgnored w (filename f) pats) (settleOrder w files))"
  by (simp add: processAll_def foldl_processFile_diffs)

lemma processAll_code:
  "relevantCode (processAll w files pats owner repo ev) =
   map (\<lambda>f. contentBlock (filename f) (fetchedText w owner repo (filename f)))
     (filter (\<lambda>f. \<not> isIgnored w (filename f) pats \<and> fetchedFile w owner repo (filename f))
        (settleOrder w files))"
  by (simp add: processAll_def foldl_processFile_code)

text \<open>
  Claim C1. For a FileRecord that no ignore pattern matches, \<open>processFile\<close> appends exactly
  one status entry \<open>File: <path> (Status: <status>)\<close> followed by a line feed, whatever the
  outcome of the content request; it appends one content block when the request succeeds
  with an item of type \<open>file\<close>, and none otherwise, in particular none when the request
  fails. Over a whole run, whatever the order in which the requests settle, the status
  entries are those of the surviving FileRecords, one each, and the content blocks those
  of the surviving FileRecords whose request returned a file.
\<close>

theorem processFile_entries:
  "(\<not> isIgnored w (filename file) ignorePatterns \<longrightarrow>
      relevantDiffs (processFile w file ignorePatterns owner repo ev acc) =
        relevantDiffs acc @
        [''File: '' @ filename file @ '' (Status: '' @ status file @ '')\<newline>''] \<and>
      (fetchedFile w owner repo (filename file) \<longrightarrow>
         relevantCode (processFile w file ignorePatterns owner repo ev acc) =
           relevantCode acc @
           [''Content of '' @ filename file @ ''\<newline>```\<newline>'' @
            fetchedText w owner repo (filename file) @ ''\<newline>```\<newline>'']) \<and>
      (\<not> fetchedFile w owner repo (filename file) \<longrightarrow>
         relevantCode (processFile w file ignorePatterns owner repo ev acc) =
           relevantCode acc) \<and>
      (\<forall>message. repos_getContent w owner repo (filename file) None = Inl message \<longrightarrow>
         relevantCode (processFile w file ignorePatterns owner repo ev acc) =
           relevantCode acc)) \<and>
   (fetchedFile w owner repo name \<longleftrightarrow>
      (\<exists>it. repos_getContent w owner repo name None = Inr (Single it) \<and>
            itemType it = ''file'')) \<and>
   mset (relevantDiffs (processAll w files ignorePatterns owner repo ev)) =
     mset (map statusEntry
             (filter (\<lambda>f. \<not> isIgnored w (filename f) ignorePatterns) files)) \<and>
   mset (relevantCode (processAll w files ignorePatterns owner repo ev)) =
     mset (map (\<lambda>f. contentBlock (filename f) (fetchedText w owner repo (filename f)))
             (filter (\<lambda>f. \<not> isIgnored w (filename f) ignorePatterns \<and>
                          fetchedFile w owner repo (filename f)) files))"
proof -
  have step: "\<not> isIgnored w (filename file) ignorePatterns \<Longrightarrow>
      relevantDiffs (processFile w file ignorePatterns owner repo ev acc) =
        relevantDiffs acc @
        [''File: '' @ filename file @ '' (Status: '' @ status file @ '')\<newline>'']"
    using processFile_diffs[of w "file" ignorePatterns owner repo ev acc]
    by (simp add: statusEntry_def)
  have failed: "\<And>message. repos_getContent w owner repo (filename file) None = Inl message
      \<Longrightarrow> \<not> fetchedFile w owner repo (filename file)"
    by (simp add: fetchedFile_def)
  have diffs: "mset (relevantDiffs (processAll w files ignorePatterns owner repo ev)) =
     mset (map statusEntry
             (filter (\<lambda>f. \<not> isIgnored w (filename f) ignorePatterns) files))"
    by (simp add: processAll_diffs settleOrder_def filter_sort)
  have code: "mset (relevantCode (processAll w files ignorePatterns owner repo ev)) =
     mset (map (\<lambda>f. contentBlock (filename f) (fetchedText w owner repo (filename f)))
             (filter (\<lambda>f. \<not> isIgnored w (filename f) ignorePatterns \<and>
                          fetchedFile w owner repo (filename f)) files))"
    by (simp add: processAll_code settleOrder_def filter_sort)
  show ?thesis
    using step failed diffs code fetchedFile_iff[of w owner repo name]
    by (simp add: processFile_code contentBlock_def)
qed

theorem processFile_entries_witness:
  "\<not> isIgnored demoWorld ''a.txt'' [''*.log''] \<and>
   \<not> isIgnored demoWorld ''c.bin'' [''*.log''] \<and>
   fetchedFile demoWorld (Some ''octo'') (Some ''demo'') ''a.txt'' \<and>
   repos_getContent demoWorld (Some ''octo'') (Some ''demo'') ''c.bin'' None = Inl ''Not Found'' \<and>
   relevantDiffs (processFile demoWorld \<lparr>filename = ''a.txt'', status = ''analyzed''\<rparr>
      [''*.log''] (Some ''octo'') (Some ''demo'') ''workflow_dispatch''
      \<lparr>relevantCode = [], relevantDiffs = [], fileLog = []\<rparr>) =
     [''File: a.txt (Status: analyzed)\<newline>''] \<and>
   relevantCode (processFile demoWorld \<lparr>filename = ''a.txt'', status = ''analyzed''\<rparr>
      [''*.log''] (Some ''octo'') (Some ''demo'') ''workflow_dispatch''
      \<lparr>relevantCode = [], relevantDiffs = [], fileLog = []\<rparr>) =
     [''Content of a.txt\<newline>```\<newline>hello\<newline>```\<newline>''] \<and>
   relevantDiffs (processFile demoWorld \<lparr>filename = ''c.bin'', status = ''analyzed''\<rparr>
      [''*.log''] (Some ''octo'') (Some ''demo'') ''workflow_dispatch''
      \<lparr>relevantCode = [], relevantDiffs = [], fileLog = []\<rparr>) =
     [''File: c.bin (Status: analyzed)\<newline>''] \<and>
   relevantCode (processFile demoWorld \<lparr>filename = ''c.bin'', status = ''analyzed''\<rparr>
      [''*.log''] (Some ''octo'') (Some ''demo'') ''workflow_dispatch''
      \<lparr>relevantCode = [], relevantDiffs = [], fileLog = []\<rparr>) = []"
proof -
  have a: "\<not> isIgnored demoWorld ''a.txt'' [''*.log'']"
    by (simp add: demoWorld_def isIgnored_def starMatch_def)
  have c: "\<not> isIgnored demoWorld ''c.bin'' [''*.log'']"
    by (simp add: demoWorld_def isIgnored_def starMatch_def)
  have fa: "fetchedFile demoWorld (Some ''octo'') (Some ''demo'') ''a.txt''"
    by (simp add: demoWorld_def fetchedFile_def)
  have fc: "repos_getContent demoWorld (Some ''octo'') (Some ''demo'') ''c.bin'' None =
      Inl ''Not Found''"
    by (simp add: demoWorld_def)
  have ta: "fetchedText demoWorld (Some ''octo'') (Some ''demo'') ''a.txt'' = ''hello''"
    by (simp add: demoWorld_def fetchedText_def)
  show ?thesis
    using a c fa fc ta
      processFile_entries[of demoWorld "\<lparr>filename = ''a.txt'', status = ''analyzed''\<rparr>"
        "[''*.log'']" "Some ''octo''" "Some ''demo''" "''workflow_dispatch''"
        "\<lparr>relevantCode = [], relevantDiffs = [], fileLog = []\<rparr>"]
      processFile_entries[of demoWorld "\<lparr>filename = ''c.bin'', status = ''analyzed''\<rparr>"
        "[''*.log'']" "Some ''octo''" "Some ''demo''" "''workflow_dispatch''"
        "\<lparr>relevantCode = [], relevantDiffs = [], fileLog = []\<rparr>"]
    by (simp add: contentBlock_def)
qed

section \<open>The prompt\<close>

text \<open>
  Claim C2, as stated, fails in its last sentence: with no content block the prompt can
  still contain the literal, here through the instruction.
\<close>

theorem buildPrompt_literal_counterexample:
  "\<not> (sublist ''Content of Affected Files:''
        (buildPrompt [] [''File: c.bin (Status: analyzed)\<newline>'']
           ''Explain the heading Content of Affected Files: of earlier reports'')
      \<longleftrightarrow> ([] :: string list) \<noteq> [])"
  by (simp add: buildPrompt_def sublist_code)

text \<open>
  Claim C2, amended. Both rendering equations hold as stated. With a non-empty list of
  content blocks the prompt contains the literal \<open>Content of Affected Files:\<close>; and the
  prompt begins with that literal exactly when the list of content blocks is non-empty
  (with an empty list it begins with \<open>Changes:\<close>).
\<close>

theorem buildPrompt_rendering:
  "(contentBlocks \<noteq> [] \<longrightarrow>
      buildPrompt contentBlocks statusEntries instruction =
        ''Content of Affected Files:\<newline>'' @ concat contentBlocks @
        ''\<newline>Use the files above to provide context on the changes made.\<newline>Changes:\<newline>'' @
        concat statusEntries @ ''\<newline>'' @ instruction) \<and>
   (contentBlocks = [] \<longrightarrow>
      buildPrompt contentBlocks statusEntries instruction =
        ''Changes:\<newline>'' @ concat statusEntries @ ''\<newline>'' @ instruction) \<and>
   (contentBlocks \<noteq> [] \<longrightarrow>
      sublist ''Content of Affected Files:''
        (buildPrompt contentBlocks statusEntries instruction)) \<and>
   (prefix ''Content of Affected Files:''
      (buildPrompt contentBlocks statusEntries instruction) \<longleftrightarrow> contentBlocks \<noteq> [])"
proof -
  have pre: "prefix ''Content of Affected Files:''
      (buildPrompt contentBlocks statusEntries instruction) \<longleftrightarrow> contentBlocks \<noteq> []"
    by (simp add: buildPrompt_def Let_def)
  then have "contentBlocks \<noteq> [] \<longrightarrow>
      sublist ''Content of Affected Files:''
        (buildPrompt contentBlocks statusEntries instruction)"
    by (blast intro: prefix_imp_sublist)
  with pre show ?thesis
    by (simp add: buildPrompt_def Let_def join_empty_sep)
qed

theorem buildPrompt_rendering_witness:
  "[''Content of a.txt\<newline>```\<newline>hello\<newline>```\<newline>''] \<noteq> [] \<and>
   buildPrompt [''Content of a.txt\<newline>```\<newline>hello\<newline>```\<newline>'']
     [''File: a.txt (Status: analyzed)\<newline>'', ''File: c.bin (Status: analyzed)\<newline>'']
     ''Review'' =
   ''Content of Affected Files:\<newline>Content of a.txt\<newline>```\<newline>hello\<newline>```\<newline>\<newline>Use the files above to provide context on the changes made.\<newline>Changes:\<newline>File: a.txt (Status: analyzed)\<newline>File: c.bin (Status: analyzed)\<newline>\<newline>Review'' \<and>
   prefix ''Content of Affected Files:''
     (buildPrompt [''Content of a.txt\<newline>```\<newline>hello\<newline>```\<newline>'']
        [''File: a.txt (Status: analyzed)\<newline>'', ''File: c.bin (Status: analyzed)\<newline>'']
        ''Review'') \<and>
   buildPrompt [] [''File: c.bin (Status: analyzed)\<newline>''] ''Review'' =
   ''Changes:\<newline>File: c.bin (Status: analyzed)\<newline>\<newline>Review'' \<and>
   \<not> prefix ''Content of Affected Files:''
     (buildPrompt [] [''File: c.bin (Status: analyzed)\<newline>''] ''Review'')"
  using
    buildPrompt_rendering[of "[''Content of a.txt\<newline>```\<newline>hello\<newline>```\<newline>'']"
      "[''File: a.txt (Status: analyzed)\<newline>'', ''File: c.bin (Status: analyzed)\<newline>'']"
      "''Review''"]
    buildPrompt_rendering[of "[]" "[''File: c.bin (Status: analyzed)\<newline>'']" "''Review''"]
  by simp

section \<open>The rule set\<close>

lemma spec_stripEnd_empty: "spec_stripEnd s = [] \<longleftrightarrow> (\<forall>c \<in> set s. isWhiteSpace c)"
  by (induction s) auto

lemma spec_stripEnd_rev: "spec_stripEnd s = rev (dropWhile isWhiteSpace (rev s))"
  by (induction s) (auto simp: dropWhile_append spec_stripEnd_empty)

lemma spec_trimmed_trim: "spec_trimmed s = trim s"
  by (simp add: spec_trimmed_def trim_def spec_stripEnd_rev)

lemma spec_pieces_nonempty: "spec_pieces sep s \<noteq> []"
  by (induction s) (auto simp: spec_pieces_def split: list.splits)

lemma splitScan_pieces:
  "splitScan sep piece s = (rev piece @ hd (spec_pieces sep s)) # tl (spec_pieces sep s)"
proof (induction s arbitrary: piece)
  case Nil
  show ?case by (simp add: spec_pieces_def)
next
  case (Cons c cs)
  have ne: "spec_pieces sep cs \<noteq> []" by (rule spec_pieces_nonempty)
  have unfold: "spec_pieces sep (c # cs) =
      (if c = sep then [] # spec_pieces sep cs
       else (c # hd (spec_pieces sep cs)) # tl (spec_pieces sep cs))"
    using ne by (cases "spec_pieces sep cs") (simp_all add: spec_pieces_def)
  show ?case
    using ne by (simp add: Cons unfold)
qed

lemma splitStr_pieces: "splitStr sep s = spec_pieces sep s"
  using spec_pieces_nonempty[of sep s] by (simp add: splitStr_def splitScan_pieces)

lemma startsWith_hash: "startsWith l ''#'' \<longleftrightarrow> spec_isComment l"
  by (cases l) (auto simp: startsWith_def)

text \<open>
  The scan is a split: joining the pieces with the separator gives the text back, and no
  piece contains the separator.
\<close>

lemma splitScan_nonempty: "splitScan sep piece s \<noteq> []"
  by (induction s arbitrary: piece) simp_all

lemma join_Cons: "ys \<noteq> [] \<Longrightarrow> join sep (x # ys) = x @ sep @ join sep ys"
  by (cases ys) simp_all

lemma join_splitScan: "join [sep] (splitScan sep piece s) = rev piece @ s"
  by (induction s arbitrary: piece) (simp_all add: join_Cons splitScan_nonempty)

lemma splitScan_free:
  "sep \<notin> set piece \<Longrightarrow> p \<in> set (splitScan sep piece s) \<Longrightarrow> sep \<notin> set p"
proof (induction s arbitrary: piece)
  case Nil
  then show ?case by simp
next
  case (Cons c cs)
  show ?case
  proof (cases "c = sep")
    case True
    with Cons.prems have "p = rev piece \<or> p \<in> set (splitScan sep [] cs)" by simp
    then show ?thesis
      using Cons.prems(1) Cons.IH[of "[]"] by auto
  next
    case False
    with Cons.prems have "p \<in> set (splitScan sep (c # piece) cs)" by simp
    then show ?thesis
      using Cons.prems(1) False Cons.IH[of "c # piece"] by auto
  qed
qed

lemma splitStr_roundtrip:
  "join [sep] (splitStr sep s) = s \<and> (\<forall>p \<in> set (splitStr sep s). sep \<notin> set p)"
  using splitScan_free[of sep "[]" _ s] by (auto simp: splitStr_def join_splitScan)

lemma ruleSetOf_example:
  "ruleSetOf ''*.md'' (Some ''node_modules/\<newline># comment\<newline>\<newline>dist/'') =
   [''*.md'', ''node_modules/'', ''dist/'']"
  by (simp add: ruleSetOf_def mergePatterns_def ignorePatternsOf_def gitignorePatternsOf_def
      splitStr_def trim_def isWhiteSpace_def startsWith_def)

lemma ruleSetOf_keeps_duplicates:
  "ruleSetOf ''*.md, *.md'' (Some ''*.md'') = [''*.md'', ''*.md'', ''*.md'']"
  by (simp add: ruleSetOf_def mergePatterns_def ignorePatternsOf_def gitignorePatternsOf_def
      splitStr_def trim_def isWhiteSpace_def startsWith_def)

text \<open>
  Claim C5. The rule set built by the code from the caller's pattern string and the
  optional text of the ignore file equals the specification's: the caller string cut at
  commas, each entry trimmed, empty entries dropped, followed (when the file is present)
  by the text cut at line feeds, each line trimmed, empty lines and lines starting with
  \<open>#\<close> dropped; nothing is removed or reordered beyond that.
\<close>

theorem ruleSetOf_spec: "ruleSetOf raw ignoreFile = spec_ruleSet raw ignoreFile"
  by (cases ignoreFile)
     (simp_all add: ruleSetOf_def spec_ruleSet_def mergePatterns_def ignorePatternsOf_def
        gitignorePatternsOf_def spec_callerRules_def spec_fileRules_def splitStr_pieces
        spec_trimmed_trim startsWith_hash conj_commute cong: map_cong)

section \<open>The ignore decision\<close>

text \<open>
  Claim C6. A path is ignored exactly when \<open>minimatch\<close> matches it against at least one
  pattern of the rule set. Hence the decision is the same for any permutation of the rule
  set, for any rule set with the same patterns whatever their multiplicity, and the empty
  rule set ignores nothing.
\<close>

theorem isIgnored_any_pattern:
  "(isIgnored w path rules \<longleftrightarrow> (\<exists>pattern \<in> set rules. minimatch w path pattern)) \<and>
   (mset rules' = mset rules \<longrightarrow> isIgnored w path rules' = isIgnored w path rules) \<and>
   (set rules' = set rules \<longrightarrow> isIgnored w path rules' = isIgnored w path rules) \<and>
   isIgnored w path (rules @ rules) = isIgnored w path rules \<and>
   \<not> isIgnored w path []"
proof -
  have any: "\<And>rs. isIgnored w path rs \<longleftrightarrow> (\<exists>pattern \<in> set rs. minimatch w path pattern)"
    by (simp add: isIgnored_def list_ex_iff)
  have "mset rules' = mset rules \<Longrightarrow> set rules' = set rules"
    by (rule mset_eq_setD)
  then show ?thesis
    by (auto simp: any)
qed

theorem isIgnored_any_pattern_witness:
  "mset [''*.log'', ''*.md''] = mset [''*.md'', ''*.log''] \<and>
   set [''*.log'', ''*.md'', ''*.log''] = set [''*.md'', ''*.log''] \<and>
   minimatch demoWorld ''b.log'' ''*.log'' \<and>
   isIgnored demoWorld ''b.log'' [''*.md'', ''*.log''] \<and>
   isIgnored demoWorld ''b.log'' [''*.log'', ''*.md''] \<and>
   isIgnored demoWorld ''b.log'' [''*.log'', ''*.md'', ''*.log''] \<and>
   \<not> isIgnored demoWorld ''b.log'' []"
proof -
  have m: "mset [''*.log'', ''*.md''] = mset [''*.md'', ''*.log'']"
    by (simp add: add.commute)
  have s: "set [''*.log'', ''*.md'', ''*.log''] = set [''*.md'', ''*.log'']"
    by auto
  have hit: "minimatch demoWorld ''b.log'' ''*.log''"
    by (simp add: demoWorld_def starMatch_def)
  show ?thesis
    using m s hit
      isIgnored_any_pattern[of demoWorld "''b.log''" "[''*.md'', ''*.log'']"
        "[''*.log'', ''*.md'']"]
      isIgnored_any_pattern[of demoWorld "''b.log''" "[''*.md'', ''*.log'']"
        "[''*.log'', ''*.md'', ''*.log'']"]
    by simp
qed

section \<open>The trace of a run\<close>

text \<open>
  Neither \<open>processFile\<close> nor anything before line 126 calls the agent, prints a report or
  logs a warning; a run that reaches line 126 has not signalled a failure.
\<close>

lemma processFile_fileLog:
  "agentCalls (fileLog (processFile w f pats owner repo ev acc)) = agentCalls (fileLog acc) \<and>
   reports (fileLog (processFile w f pats owner repo ev acc)) = reports (fileLog acc) \<and>
   failures (fileLog (processFile w f pats owner repo ev acc)) = failures (fileLog acc) \<and>
   warnings (fileLog (processFile w f pats owner repo ev acc)) = warnings (fileLog acc)"
  by (simp add: processFile_def Let_def trace_append split: sum.splits)

lemma foldl_processFile_fileLog:
  "agentCalls (fileLog (foldl (\<lambda>acc file. processFile w file pats owner repo ev acc) acc0 fs)) = agentCalls (fileLog acc0) \<and>
   reports (fileLog (foldl (\<lambda>acc file. processFile w file pats owner repo ev acc) acc0 fs)) = reports (fileLog acc0) \<and>
   failures (fileLog (foldl (\<lambda>acc file. processFile w file pats owner repo ev acc) acc0 fs)) = failures (fileLog acc0) \<and>
   warnings (fileLog (foldl (\<lambda>acc file. processFile w file pats owner repo ev acc) acc0 fs)) = warnings (fileLog acc0)"
  by (induction fs arbitrary: acc0) (simp_all add: processFile_fileLog)

lemma processAll_fileLog:
  "agentCalls (fileLog (processAll w files pats owner repo ev)) = [] \<and>
   reports (fileLog (processAll w files pats owner repo ev)) = [] \<and>
   failures (fileLog (processAll w files pats owner repo ev)) = [] \<and>
   warnings (fileLog (processAll w files pats owner repo ev)) = []"
  by (simp add: processAll_def foldl_processFile_fileLog)

lemma enumerate_trace:
  "enumerate w owner repo = (es, r) \<Longrightarrow>
   agentCalls es = [] \<and> reports es = [] \<and> warnings es = [] \<and>
   (\<forall>x. r = Normal x \<longrightarrow> failures es = [])"
  by (auto simp: enumerate_def snapshot_def bind_def await_def emit_def returnNow_def Let_def
      split: if_splits sum.splits contentData.splits)

lemma enumerate_session:
  "enumerate w owner repo = (es, Normal (session, files)) \<Longrightarrow>
   (eventName w = ''workflow_dispatch'' \<and>
    session = ''workflow-'' @ numberToString (runId w)) \<or>
   (eventName w = ''schedule'' \<and> session = ''schedule-'' @ stripNonDigits (clock w (Line 72)))"
  by (auto simp: enumerate_def snapshot_def bind_def await_def emit_def returnNow_def Let_def
      split: if_splits sum.splits contentData.splits)

lemma enumerate_unsupported:
  "eventName w \<noteq> ''workflow_dispatch'' \<Longrightarrow> eventName w \<noteq> ''schedule'' \<Longrightarrow>
   enumerate w owner repo =
     ([CoreSetFailed (''Unsupported event type: '' @ eventName w @
         ''. This action only supports workflow_dispatch and schedule events.'')], Returned)"
  by (simp add: enumerate_def bind_def emit_def returnNow_def)

lemma loadGitignore_trace:
  "loadGitignore w dbg = (es, r) \<Longrightarrow>
   agentCalls es = [] \<and> reports es = [] \<and> warnings es = [] \<and> failures es = []"
  by (auto simp: loadGitignore_def bind_def await_def emit_def Let_def
      split: if_splits sum.splits option.splits)

lemma loadGitignore_patterns:
  "loadGitignore w dbg = (es, Normal pats) \<Longrightarrow>
   \<exists>ws. env w ''GITHUB_WORKSPACE'' = Some ws \<and>
     pats = (case (if existsSync w (path_join w ws ''.gitignore'')
                   then (case readFileSync w (path_join w ws ''.gitignore'') of
                           Inl _ \<Rightarrow> None | Inr text \<Rightarrow> Some text)
                   else None) of
               None \<Rightarrow> [] | Some text \<Rightarrow> gitignorePatternsOf text)"
  by (auto simp: loadGitignore_def bind_def await_def emit_def Let_def
      split: if_splits sum.splits option.splits)

lemma prepare_trace:
  "prepare w = (es, r) \<Longrightarrow>
   agentCalls es = [] \<and> reports es = [] \<and> warnings es = [] \<and>
   (\<forall>st. r = Normal st \<longrightarrow> failures es = [])"
  unfolding prepare_def Let_def bind_def await_def emit_def
  by (auto simp: trace_append processAll_fileLog
      split: sum.splits option.splits prod.splits completion.splits
      dest!: enumerate_trace loadGitignore_trace)

lemma prepare_state:
  "prepare w = (es, Normal st) \<Longrightarrow>
   actionPrompt st = trim (getInput w ''action_prompt'') \<and>
   agentId st = trim (getInput w ''agent_id'') \<and>
   agentAliasId st = trim (getInput w ''agent_alias_id'') \<and>
   getBooleanInput w ''debug'' = Inr (debug st) \<and>
   memoryId st = memoryIdOf (getInput w ''memory_id'') \<and>
   ((eventName w = ''workflow_dispatch'' \<and>
     sessionId st = ''workflow-'' @ numberToString (runId w)) \<or>
    (eventName w = ''schedule'' \<and>
     sessionId st = ''schedule-'' @ stripNonDigits (clock w (Line 72))))"
  unfolding prepare_def Let_def bind_def await_def emit_def
  by (auto split: sum.splits option.splits prod.splits completion.splits
      dest!: enumerate_session)

lemma prepare_gathered:
  "prepare w = (es, Normal st) \<Longrightarrow>
   \<exists>repository. env w ''GITHUB_REPOSITORY'' = Some repository \<and>
     gathered st =
       processAll w (changedFiles st) (allIgnorePatterns st)
         (element (splitStr CHR ''/'' repository) 0)
         (element (splitStr CHR ''/'' repository) 1) (eventName w)"
  unfolding prepare_def Let_def bind_def await_def emit_def
  by (auto split: sum.splits option.splits prod.splits completion.splits)

lemma prepare_ruleSet:
  "prepare w = (es, Normal st) \<Longrightarrow>
   \<exists>ws. env w ''GITHUB_WORKSPACE'' = Some ws \<and>
     allIgnorePatterns st =
       ruleSetOf (getInput w ''ignore_patterns'')
         (if existsSync w (path_join w ws ''.gitignore'')
          then (case readFileSync w (path_join w ws ''.gitignore'') of
                  Inl _ \<Rightarrow> None | Inr text \<Rightarrow> Some text)
          else None)"
  unfolding prepare_def Let_def bind_def await_def emit_def ruleSetOf_def
  by (auto split: sum.splits option.splits prod.splits completion.splits
      dest!: loadGitignore_patterns)


text \<open>Lines 125-159 and the whole of \<open>main\<close>, in terms of the state line 123 leaves.\<close>

lemma conclude_empty:
  "emptyContext st \<Longrightarrow>
   conclude w st =
     ([CoreWarning (stamp w (Line 127) @ '' No relevant files or diffs found for analysis.'')],
      Returned)"
  by (simp add: conclude_def emptyContext_def bind_def emit_def returnNow_def)

lemma conclude_quiet:
  "\<not> emptyContext st \<Longrightarrow>
   quiet (fst (conclude w st)) =
     InvokeAgent (callOf st) #
     (case invokeAgent w (callOf st) of
        Inl _ \<Rightarrow> []
      | Inr response \<Rightarrow>
          [ConsoleInfo (formatMarkdownAnalysis w response (eventName w)
             (length (relevantCode (gathered st))) (length (relevantDiffs (gathered st)))
             (changedFiles st))]) \<and>
   snd (conclude w st) =
     (case invokeAgent w (callOf st) of Inl m \<Rightarrow> Thrown m | Inr _ \<Rightarrow> Normal ())"
  by (auto simp: conclude_def emptyContext_def callOf_def bind_def emit_def await_def Let_def
      quiet_simps quiet_append split: sum.splits)

lemma main_unfold:
  "main w =
     CoreInfo (stamp w (Line 14) @ '' Starting GitHub Action'') #
     (if envMissing w
      then [CoreSetFailed
              ''Error: Missing required environment variables: GITHUB_TOKEN, GITHUB_REPOSITORY.'']
      else (case prepare w of
              (es, Normal st) \<Rightarrow>
                es @ fst (conclude w st) @
                (case snd (conclude w st) of
                   Thrown m \<Rightarrow> [CoreSetFailed (stamp w (Line 161) @ '' Error: '' @ m)]
                 | _ \<Rightarrow> [])
            | (es, Returned) \<Rightarrow> es
            | (es, Thrown m) \<Rightarrow>
                es @ [CoreSetFailed (stamp w (Line 161) @ '' Error: '' @ m)]))"
  by (simp add: main_def body_def envMissing_def bind_def emit_def returnNow_def
      requiredEnvVars_def
      split: prod.splits completion.splits)

lemma main_calls:
  "agentCalls (main w) =
     (if envMissing w then []
      else (case prepare w of
              (es, Normal st) \<Rightarrow> if emptyContext st then [] else [callOf st]
            | _ \<Rightarrow> []))"
proof (cases "envMissing w")
  case True
  then show ?thesis by (simp add: main_unfold)
next
  case False
  obtain es r where P: "prepare w = (es, r)" by (cases "prepare w")
  note T = prepare_trace[OF P]
  show ?thesis
  proof (cases r)
    case (Normal st)
    show ?thesis
    proof (cases "emptyContext st")
      case True
      then show ?thesis
        using False P Normal T by (simp add: main_unfold conclude_empty trace_append)
    next
      case ne: False
      have "agentCalls (fst (conclude w st)) = [callOf st]"
        using conclude_quiet[OF ne, of w] agentCalls_quiet[of "fst (conclude w st)"]
        by (simp split: sum.splits)
      then show ?thesis
        using False P Normal T ne
        by (simp add: main_unfold trace_append split: completion.splits)
    qed
  next
    case Returned
    then show ?thesis using False P T by (simp add: main_unfold)
  next
    case (Thrown m)
    then show ?thesis using False P T by (simp add: main_unfold trace_append)
  qed
qed

lemma main_call_state:
  "c \<in> set (agentCalls (main w)) \<Longrightarrow> \<exists>es st. prepare w = (es, Normal st) \<and> c = callOf st"
  by (cases "prepare w")
     (auto simp: main_calls split: if_splits completion.splits)

lemma mainDirect_calls:
  "agentCalls (mainDirect w) =
     (case getBooleanInput w ''debug'' of
        Inl _ \<Rightarrow> []
      | Inr _ \<Rightarrow>
          [\<lparr>callAgentId = trim (getInput w ''agent_id''),
            callAgentAliasId = trim (getInput w ''agent_alias_id''),
            callSessionId = ''session-'' @ showNat (dateNow w),
            callPrompt = trim (getInput w ''action_prompt''),
            callMemoryId = memoryIdOf (getInput w ''memory_id'')\<rparr>])"
  by (simp add: mainDirect_def bodyDirect_def bind_def emit_def await_def Let_def trace_append
      split: sum.splits)

lemma envMissing_iff:
  "envMissing w \<longleftrightarrow>
   env w ''GITHUB_TOKEN'' = None \<or> env w ''GITHUB_TOKEN'' = Some [] \<or>
   env w ''GITHUB_REPOSITORY'' = None \<or> env w ''GITHUB_REPOSITORY'' = Some []"
  by (cases "env w ''GITHUB_TOKEN''"; cases "env w ''GITHUB_REPOSITORY''")
     (auto simp: envMissing_def requiredEnvVars_def)

lemma prepare_unsupported:
  assumes "eventName w \<noteq> ''workflow_dispatch''" and "eventName w \<noteq> ''schedule''"
    and "prepare w = (es, r)"
  shows "(\<forall>st. r \<noteq> Normal st) \<and> (failures es \<noteq> [] \<or> (\<exists>m. r = Thrown m))"
  using assms(3) enumerate_unsupported[OF assms(1,2)]
  unfolding prepare_def Let_def bind_def await_def emit_def
  by (auto split: sum.splits option.splits)

lemma main_unsupported:
  assumes "eventName w \<noteq> ''workflow_dispatch''" and "eventName w \<noteq> ''schedule''"
  shows "failures (main w) \<noteq> [] \<and> agentCalls (main w) = [] \<and> reports (main w) = []"
proof (cases "envMissing w")
  case True
  then show ?thesis by (simp add: main_unfold)
next
  case False
  obtain es r where P: "prepare w = (es, r)" by (cases "prepare w")
  note U = prepare_unsupported[OF assms P] and T = prepare_trace[OF P]
  show ?thesis
  proof (cases r)
    case (Normal st)
    with U show ?thesis by simp
  next
    case Returned
    with U T False P show ?thesis by (simp add: main_unfold)
  next
    case (Thrown m)
    with T False P show ?thesis by (simp add: main_unfold trace_append)
  qed
qed


section \<open>Files matched by an ignore pattern\<close>

lemma join_member_sublist: "x \<in> set xs \<Longrightarrow> sublist x (join sep xs)"
proof (induction xs rule: induct_list012)
  case 1
  then show ?case by simp
next
  case (2 y)
  then show ?case by simp
next
  case (3 y z zs)
  show ?case
  proof (cases "x = y")
    case True
    then show ?thesis by simp
  next
    case False
    with 3 have "sublist x (join sep (z # zs))" by simp
    then obtain ps ss where "join sep (z # zs) = ps @ x @ ss"
      by (auto simp: sublist_def)
    then have "join sep (y # z # zs) = (y @ sep @ ps) @ x @ ss" by simp
    then show ?thesis unfolding sublist_def by blast
  qed
qed

lemma report_lists_file:
  "f \<in> set files \<Longrightarrow>
   sublist (''- **'' @ filename f @ ''**: '' @ status f)
     (formatMarkdownAnalysis w response ev n m files)"
proof -
  assume "f \<in> set files"
  then have "fileSummaryLine f \<in> set (map fileSummaryLine files)" by simp
  then have "sublist (fileSummaryLine f) (join ''\<newline>'' (map fileSummaryLine files))"
    by (rule join_member_sublist)
  then obtain ps ss where
    "join ''\<newline>'' (map fileSummaryLine files) = ps @ fileSummaryLine f @ ss"
    by (auto simp: sublist_def)
  then have "\<exists>ps' ss'. formatMarkdownAnalysis w response ev n m files =
      ps' @ fileSummaryLine f @ ss'"
    unfolding formatMarkdownAnalysis_def Let_def
    by (metis append.assoc)
  then show ?thesis
    by (simp add: sublist_def fileSummaryLine_def)
qed


text \<open>
  What a run prints: nothing unless the agent answered, and then one report, rendered
  from the whole listing. So the report of a run names every enumerated file, whether an
  ignore pattern matches it or not.
\<close>

lemma reports_main:
  assumes "\<not> envMissing w" and "prepare w = (es, Normal st)"
  shows "reports (main w) =
     (if emptyContext st then []
      else (case invokeAgent w (callOf st) of
              Inl _ \<Rightarrow> []
            | Inr response \<Rightarrow>
                [formatMarkdownAnalysis w response (eventName w)
                   (length (relevantCode (gathered st))) (length (relevantDiffs (gathered st)))
                   (changedFiles st)]))"
proof (cases "emptyContext st")
  case True
  then show ?thesis
    using assms prepare_trace[OF assms(2)]
    by (simp add: main_unfold conclude_empty trace_append)
next
  case False
  have "reports (fst (conclude w st)) = reports (quiet (fst (conclude w st)))"
    by (simp add: reports_quiet)
  also have "\<dots> =
     (case invokeAgent w (callOf st) of
        Inl _ \<Rightarrow> []
      | Inr response \<Rightarrow>
          [formatMarkdownAnalysis w response (eventName w)
             (length (relevantCode (gathered st))) (length (relevantDiffs (gathered st)))
             (changedFiles st)])"
    using conclude_quiet[OF False, of w] by (simp split: sum.splits)
  finally show ?thesis
    using False assms prepare_trace[OF assms(2)]
    by (simp add: main_unfold trace_append split: completion.splits)
qed

lemma report_names_enumerated_files:
  assumes "prepare w = (es, Normal st)" and "r \<in> set (reports (main w))"
    and "f \<in> set (changedFiles st)"
  shows "sublist (''- **'' @ filename f @ ''**: '' @ status f) r"
proof (cases "envMissing w")
  case True
  with assms(2) show ?thesis by (simp add: main_unfold)
next
  case False
  from assms(2) reports_main[OF False assms(1)] obtain response where
    "r = formatMarkdownAnalysis w response (eventName w)
           (length (relevantCode (gathered st))) (length (relevantDiffs (gathered st)))
           (changedFiles st)"
    by (auto split: if_splits sum.splits)
  then show ?thesis
    using report_lists_file[OF assms(3)] by simp
qed

text \<open>
  Claim C3. A file matched by an ignore pattern produces neither a content block nor a
  status entry and appears in no output of the run, prompt and report included. The code
  keeps the first part (\<open>processFile_ignored\<close>, \<open>processAll_filter\<close>) and breaks the last: in
  the example run \<open>b.log\<close> is matched by the caller's pattern \<open>*.log\<close>, the prompt passed to
  the agent does not mention it and the counts of the report leave it out, yet the
  report lists it under \<open>Files Processed\<close> with the status \<open>analyzed\<close>.
\<close>

theorem ignored_file_in_report:
  "isIgnored demoWorld ''b.log'' (ruleSetOf (getInput demoWorld ''ignore_patterns'') None) \<and>
   map callPrompt (agentCalls (main demoWorld)) =
     [''Content of Affected Files:\<newline>Content of a.txt\<newline>```\<newline>hello\<newline>```\<newline>\<newline>Use the files above to provide context on the changes made.\<newline>Changes:\<newline>File: a.txt (Status: analyzed)\<newline>File: c.bin (Status: analyzed)\<newline>\<newline>Review''] \<and>
   \<not> sublist ''b.log'' (concat (map callPrompt (agentCalls (main demoWorld)))) \<and>
   reports (main demoWorld) =
     [''## Analysis for Workflow Dispatch (Time: 2024-05-06T07:08:09.123Z)\<newline>\<newline>### Files Analyzed: 1\<newline>### Diffs Analyzed: 2\<newline>\<newline>### Files Processed:\<newline>- **a.txt**: analyzed\<newline>- **b.log**: analyzed\<newline>- **c.bin**: analyzed\<newline>\<newline>LGTM''] \<and>
   sublist ''- **b.log**: analyzed'' (concat (reports (main demoWorld)))"
  by (simp add: demoWorld_def run_defs sublist_code)

section \<open>Required inputs\<close>

lemma program_token:
  "program w =
     (if env w ''GITHUB_TOKEN'' = None \<or> env w ''GITHUB_TOKEN'' = Some []
      then LoadFailed ''Parameter token or opts.auth is required''
      else Ran (main w))"
  by (cases "env w ''GITHUB_TOKEN''") (simp_all add: program_def)

text \<open>
  Claim C4, as stated, fails: in the example run with an instruction of three spaces,
  which is empty after trimming, no failure is signalled and the agent is called, with a
  prompt that ends in the empty instruction.
\<close>

theorem instruction_not_checked_counterexample:
  "trim (getInput (demoWorld\<lparr>getInput := (getInput demoWorld)(''action_prompt'' := ''   '')\<rparr>)
     ''action_prompt'') = [] \<and>
   failures (traceOf (program
     (demoWorld\<lparr>getInput := (getInput demoWorld)(''action_prompt'' := ''   '')\<rparr>))) = [] \<and>
   agentCalls (traceOf (program
     (demoWorld\<lparr>getInput := (getInput demoWorld)(''action_prompt'' := ''   '')\<rparr>))) =
     [\<lparr>callAgentId = [], callAgentAliasId = [], callSessionId = ''workflow-42'',
       callPrompt = ''Content of Affected Files:\<newline>Content of a.txt\<newline>```\<newline>hello\<newline>```\<newline>\<newline>Use the files above to provide context on the changes made.\<newline>Changes:\<newline>File: a.txt (Status: analyzed)\<newline>File: c.bin (Status: analyzed)\<newline>\<newline>'',
       callMemoryId = None\<rparr>]"
  by (simp add: demoWorld_def run_defs)

text \<open>
  Claim C4, amended. A run whose \<open>GITHUB_TOKEN\<close> is unset or empty ends while the module
  is loaded, with the uncaught error of line 9: \<open>main\<close> is not called, so nothing is
  logged and no agent is called. With the token set, a run whose \<open>GITHUB_REPOSITORY\<close> is
  unset or empty stops at once with the failure signal and its message, without calling
  the agent. A run on an event other than \<open>workflow_dispatch\<close> and \<open>schedule\<close> calls no
  agent and prints no report, and unless it ended at line 9 it signals a failure. The
  instruction is only trimmed: whatever it is, empty or not, it is the last part of every
  prompt passed to the agent by the main entry point, and the whole prompt of the one
  call made by the direct entry point.
\<close>

theorem abort_conditions:
  "(env w ''GITHUB_TOKEN'' = None \<or> env w ''GITHUB_TOKEN'' = Some [] \<longrightarrow>
      program w = LoadFailed ''Parameter token or opts.auth is required'') \<and>
   (env w ''GITHUB_TOKEN'' \<noteq> None \<and> env w ''GITHUB_TOKEN'' \<noteq> Some [] \<and>
    (env w ''GITHUB_REPOSITORY'' = None \<or> env w ''GITHUB_REPOSITORY'' = Some []) \<longrightarrow>
      program w =
        Ran [CoreInfo (''['' @ clock w (Line 14) @ '']'' @ '' Starting GitHub Action''),
             CoreSetFailed
               ''Error: Missing required environment variables: GITHUB_TOKEN, GITHUB_REPOSITORY.'']) \<and>
   (eventName w \<noteq> ''workflow_dispatch'' \<and> eventName w \<noteq> ''schedule'' \<longrightarrow>
      agentCalls (traceOf (program w)) = [] \<and> reports (traceOf (program w)) = [] \<and>
      (program w = LoadFailed ''Parameter token or opts.auth is required'' \<or>
       failures (traceOf (program w)) \<noteq> [])) \<and>
   (\<forall>c \<in> set (agentCalls (traceOf (program w))).
      \<exists>code diffs. callPrompt c = buildPrompt code diffs (trim (getInput w ''action_prompt''))) \<and>
   map callPrompt (agentCalls (mainDirect w)) =
     (case getBooleanInput w ''debug'' of
        Inl _ \<Rightarrow> []
      | Inr _ \<Rightarrow> [trim (getInput w ''action_prompt'')])"
proof -
  have a: "envMissing w \<Longrightarrow> main w =
        [CoreInfo (''['' @ clock w (Line 14) @ '']'' @ '' Starting GitHub Action''),
         CoreSetFailed
           ''Error: Missing required environment variables: GITHUB_TOKEN, GITHUB_REPOSITORY.'']"
    by (simp add: main_unfold stamp_def getTimestamp_def)
  have c: "\<And>c. c \<in> set (agentCalls (main w)) \<Longrightarrow>
      \<exists>code diffs. callPrompt c = buildPrompt code diffs (trim (getInput w ''action_prompt''))"
  proof -
    fix c
    assume "c \<in> set (agentCalls (main w))"
    then obtain es st where P: "prepare w = (es, Normal st)" and c: "c = callOf st"
      using main_call_state by blast
    from prepare_state[OF P] have "actionPrompt st = trim (getInput w ''action_prompt'')"
      by simp
    with c have "callPrompt c =
        buildPrompt (relevantCode (gathered st)) (relevantDiffs (gathered st))
          (trim (getInput w ''action_prompt''))"
      by (simp add: callOf_def)
    then show "\<exists>code diffs. callPrompt c =
        buildPrompt code diffs (trim (getInput w ''action_prompt''))"
      by blast
  qed
  have d: "map callPrompt (agentCalls (mainDirect w)) =
     (case getBooleanInput w ''debug'' of
        Inl _ \<Rightarrow> []
      | Inr _ \<Rightarrow> [trim (getInput w ''action_prompt'')])"
    by (simp add: mainDirect_calls split: sum.splits)
  show ?thesis
  proof (cases "env w ''GITHUB_TOKEN'' = None \<or> env w ''GITHUB_TOKEN'' = Some []")
    case True
    then have l: "program w = LoadFailed ''Parameter token or opts.auth is required''"
      by (simp add: program_token)
    then have "traceOf (program w) = []" by simp
    with True l d show ?thesis by auto
  next
    case False
    then have p: "program w = Ran (main w)" by (simp add: program_token)
    have r: "env w ''GITHUB_REPOSITORY'' = None \<or> env w ''GITHUB_REPOSITORY'' = Some []
        \<Longrightarrow> envMissing w"
      by (simp add: envMissing_iff)
    show ?thesis
      using False p a r c d main_unsupported[of w] by auto
  qed
qed

theorem abort_conditions_witness:
  "env (demoWorld\<lparr>env := Map.empty\<rparr>) ''GITHUB_TOKEN'' = None \<and>
   program (demoWorld\<lparr>env := Map.empty\<rparr>) =
     LoadFailed ''Parameter token or opts.auth is required'' \<and>
   env (demoWorld\<lparr>env := [''GITHUB_TOKEN'' \<mapsto> ''token'']\<rparr>) ''GITHUB_REPOSITORY'' = None \<and>
   program (demoWorld\<lparr>env := [''GITHUB_TOKEN'' \<mapsto> ''token'']\<rparr>) =
     Ran [CoreInfo ''[2024-05-06T07:08:09.123Z] Starting GitHub Action'',
          CoreSetFailed
            ''Error: Missing required environment variables: GITHUB_TOKEN, GITHUB_REPOSITORY.''] \<and>
   eventName (demoWorld\<lparr>eventName := ''push''\<rparr>) \<noteq> ''workflow_dispatch'' \<and>
   eventName (demoWorld\<lparr>eventName := ''push''\<rparr>) \<noteq> ''schedule'' \<and>
   failures (traceOf (program (demoWorld\<lparr>eventName := ''push''\<rparr>))) =
     [''Unsupported event type: push. This action only supports workflow_dispatch and schedule events.''] \<and>
   agentCalls (traceOf (program (demoWorld\<lparr>eventName := ''push''\<rparr>))) = [] \<and>
   getBooleanInput demoWorld ''debug'' = Inr False \<and>
   map callPrompt (agentCalls (mainDirect demoWorld)) = [''Review''] \<and>
   map callPrompt (agentCalls (mainDirect
     (demoWorld\<lparr>getInput := (getInput demoWorld)(''action_prompt'' := ''   '')\<rparr>))) = [[]]"
proof -
  let ?none = "demoWorld\<lparr>env := Map.empty\<rparr>"
  let ?tokenOnly = "demoWorld\<lparr>env := [''GITHUB_TOKEN'' \<mapsto> ''token'']\<rparr>"
  let ?push = "demoWorld\<lparr>eventName := ''push''\<rparr>"
  let ?blank = "demoWorld\<lparr>getInput := (getInput demoWorld)(''action_prompt'' := ''   '')\<rparr>"
  have e: "env ?none ''GITHUB_TOKEN'' = None"
    by simp
  have k: "env ?tokenOnly ''GITHUB_TOKEN'' \<noteq> None"
      "env ?tokenOnly ''GITHUB_TOKEN'' \<noteq> Some []"
      "env ?tokenOnly ''GITHUB_REPOSITORY'' = None"
    by simp_all
  have p: "eventName ?push \<noteq> ''workflow_dispatch''" "eventName ?push \<noteq> ''schedule''"
    by simp_all
  have f: "failures (traceOf (program ?push)) =
     [''Unsupported event type: push. This action only supports workflow_dispatch and schedule events.'']"
    by (simp add: demoWorld_def run_defs)
  have d: "getBooleanInput demoWorld ''debug'' = Inr False"
      "getBooleanInput ?blank ''debug'' = Inr False"
    by (simp_all add: demoWorld_def)
  have c: "clock demoWorld (Line 14) = ''2024-05-06T07:08:09.123Z''"
    by (simp add: demoWorld_def)
  have t: "trim (getInput demoWorld ''action_prompt'') = ''Review''"
      "trim (getInput ?blank ''action_prompt'') = []"
    by (simp_all add: demoWorld_def trim_def isWhiteSpace_def)
  from abort_conditions[of ?none] e
  have l: "program ?none = LoadFailed ''Parameter token or opts.auth is required''"
    by blast
  from abort_conditions[of ?tokenOnly] k
  have m: "program ?tokenOnly =
     Ran [CoreInfo ''[2024-05-06T07:08:09.123Z] Starting GitHub Action'',
          CoreSetFailed
            ''Error: Missing required environment variables: GITHUB_TOKEN, GITHUB_REPOSITORY.'']"
    by (simp add: c)
  from abort_conditions[of ?push] p
  have u: "agentCalls (traceOf (program ?push)) = []"
    by blast
  from abort_conditions[of demoWorld] d(1) t(1)
  have r: "map callPrompt (agentCalls (mainDirect demoWorld)) = [''Review'']"
    by simp
  from abort_conditions[of ?blank] d(2) t(2)
  have b: "map callPrompt (agentCalls (mainDirect ?blank)) = [[]]"
    by simp
  show ?thesis
    using e k(3) p f d(1) l m u r b by blast
qed

section \<open>Session and memory identifiers\<close>

lemma isoTimestamp_inj:
  "isoTimestamp a \<Longrightarrow> isoTimestamp b \<Longrightarrow> stripNonDigits a = stripNonDigits b \<Longrightarrow> a = b"
  by (simp add: isoTimestamp_def)


lemma numberToString_safe_inj:
  "numberToString (SafeInteger k) = numberToString (SafeInteger l) \<Longrightarrow> k = l"
proof -
  assume "numberToString (SafeInteger k) = numberToString (SafeInteger l)"
  then have "unat k = unat l" by (simp add: showNat_inj)
  then show "k = l" by (rule unsigned_word_eqI)
qed

text \<open>
  Claim C7. On a dispatch event every call of the agent carries the session id
  \<open>workflow-\<close> followed by the run id as the template literal renders the Number
  \<open>github.context.runId\<close>: its decimal digits when it is a non-negative safe integer, and
  then two different run ids give different session ids. On a schedule event the id is
  \<open>schedule-\<close> followed by the digits of the ISO timestamp read at line 72; in the direct
  entry point, \<open>session-\<close> followed by the decimal epoch milliseconds. Two ISO timestamps
  that differ in their first nineteen characters (date and time to the second) give
  different schedule ids.
\<close>

theorem sessionId_derivation:
  "(eventName w = ''workflow_dispatch'' \<longrightarrow>
      (\<forall>c \<in> set (agentCalls (main w)).
         callSessionId c = ''workflow-'' @ numberToString (runId w))) \<and>
   numberToString (SafeInteger k) = showNat (unat k) \<and>
   (k \<noteq> l \<longrightarrow>
      ''workflow-'' @ numberToString (SafeInteger k) \<noteq>
      ''workflow-'' @ numberToString (SafeInteger l)) \<and>
   (eventName w = ''schedule'' \<longrightarrow>
      (\<forall>c \<in> set (agentCalls (main w)).
         callSessionId c = ''schedule-'' @ filter isDigit (clock w (Line 72)))) \<and>
   (\<forall>c \<in> set (agentCalls (mainDirect w)).
      callSessionId c = ''session-'' @ showNat (dateNow w)) \<and>
   (isoTimestamp a \<and> isoTimestamp b \<and> take 19 a \<noteq> take 19 b \<longrightarrow>
      ''schedule-'' @ filter isDigit a \<noteq> ''schedule-'' @ filter isDigit b)"
proof -
  have inj: "k \<noteq> l \<Longrightarrow> numberToString (SafeInteger k) \<noteq> numberToString (SafeInteger l)"
    using numberToString_safe_inj[of k l] by blast
  have disp: "\<And>c. eventName w = ''workflow_dispatch'' \<Longrightarrow> c \<in> set (agentCalls (main w)) \<Longrightarrow>
      callSessionId c = ''workflow-'' @ numberToString (runId w)"
    by (auto dest!: main_call_state prepare_state simp: callOf_def)
  have sched: "\<And>c. eventName w = ''schedule'' \<Longrightarrow> c \<in> set (agentCalls (main w)) \<Longrightarrow>
      callSessionId c = ''schedule-'' @ filter isDigit (clock w (Line 72))"
    by (auto dest!: main_call_state prepare_state simp: callOf_def stripNonDigits_def)
  have direct: "\<And>c. c \<in> set (agentCalls (mainDirect w)) \<Longrightarrow>
      callSessionId c = ''session-'' @ showNat (dateNow w)"
    by (auto simp: mainDirect_calls split: sum.splits)
  have iso: "isoTimestamp a \<Longrightarrow> isoTimestamp b \<Longrightarrow> take 19 a \<noteq> take 19 b \<Longrightarrow>
      filter isDigit a \<noteq> filter isDigit b"
    using isoTimestamp_inj[of a b] by (auto simp: stripNonDigits_def)
  show ?thesis
    using disp sched direct iso inj by auto
qed

theorem sessionId_derivation_witness:
  "eventName demoWorld = ''workflow_dispatch'' \<and> runId demoWorld = SafeInteger 42 \<and>
   map callSessionId (agentCalls (main demoWorld)) = [''workflow-42''] \<and>
   map callSessionId (agentCalls (main (demoWorld\<lparr>runId := NaN\<rparr>))) = [''workflow-NaN''] \<and>
   map callSessionId (agentCalls (main (demoWorld\<lparr>runId := OtherNumber ''1e+21''\<rparr>))) =
     [''workflow-1e+21''] \<and>
   (42 :: 53 word) \<noteq> 43 \<and>
   ''workflow-'' @ numberToString (SafeInteger 42) \<noteq>
   ''workflow-'' @ numberToString (SafeInteger 43) \<and>
   eventName (demoWorld\<lparr>eventName := ''schedule''\<rparr>) = ''schedule'' \<and>
   map callSessionId (agentCalls (main (demoWorld\<lparr>eventName := ''schedule''\<rparr>))) =
     [''schedule-20240506070809123''] \<and>
   map callSessionId (agentCalls (mainDirect demoWorld)) = [''session-1714979289123''] \<and>
   isoTimestamp ''2024-05-06T07:08:09.123Z'' \<and> isoTimestamp ''2024-05-06T07:08:10.123Z'' \<and>
   take 19 ''2024-05-06T07:08:09.123Z'' \<noteq> take 19 ''2024-05-06T07:08:10.123Z'' \<and>
   ''schedule-'' @ filter isDigit ''2024-05-06T07:08:09.123Z'' \<noteq>
   ''schedule-'' @ filter isDigit ''2024-05-06T07:08:10.123Z''"
proof -
  let ?nan = "demoWorld\<lparr>runId := NaN\<rparr>"
  let ?big = "demoWorld\<lparr>runId := OtherNumber ''1e+21''\<rparr>"
  let ?sched = "demoWorld\<lparr>eventName := ''schedule''\<rparr>"
  have e: "eventName demoWorld = ''workflow_dispatch''" "eventName ?nan = ''workflow_dispatch''"
      "eventName ?big = ''workflow_dispatch''" "eventName ?sched = ''schedule''"
    by (simp_all add: demoWorld_def)
  have r: "runId demoWorld = SafeInteger 42"
    by (simp add: demoWorld_def)
  have n: "length (agentCalls (main demoWorld)) = 1" "length (agentCalls (main ?nan)) = 1"
      "length (agentCalls (main ?big)) = 1" "length (agentCalls (main ?sched)) = 1"
      "length (agentCalls (mainDirect demoWorld)) = 1"
    by (simp_all add: demoWorld_def run_defs)
  have v: "numberToString (runId demoWorld) = ''42''"
      "numberToString (runId ?nan) = ''NaN''"
      "numberToString (runId ?big) = ''1e+21''"
      "showNat (dateNow demoWorld) = ''1714979289123''"
      "filter isDigit (clock ?sched (Line 72)) = ''20240506070809123''"
    by (simp_all add: demoWorld_def showNat.simps digitChar_table isDigit_def)
  have i: "isoTimestamp ''2024-05-06T07:08:09.123Z''" "isoTimestamp ''2024-05-06T07:08:10.123Z''"
    by (simp_all add: isoTimestamp_def isoLayout_def stripNonDigits_def isDigit_def)
  have t: "take 19 ''2024-05-06T07:08:09.123Z'' \<noteq> take 19 ''2024-05-06T07:08:10.123Z''"
    by simp
  have w: "(42 :: 53 word) \<noteq> 43"
    by simp
  have one: "\<And>xs (f :: agentCall \<Rightarrow> string) v.
      length xs = 1 \<Longrightarrow> \<forall>c \<in> set xs. f c = v \<Longrightarrow> map f xs = [v]"
    by (case_tac xs) simp_all
  note d = sessionId_derivation[of demoWorld 42 43 "''2024-05-06T07:08:09.123Z''"
        "''2024-05-06T07:08:10.123Z''"]
    and q = sessionId_derivation[of ?nan]
    and b = sessionId_derivation[of ?big]
    and s = sessionId_derivation[of ?sched]
  have "map callSessionId (agentCalls (main demoWorld)) = [''workflow-42'']"
    using d e(1) v(1) by (intro one[OF n(1)]) simp
  moreover have "map callSessionId (agentCalls (main ?nan)) = [''workflow-NaN'']"
    using q e(2) v(2) by (intro one[OF n(2)]) simp
  moreover have "map callSessionId (agentCalls (main ?big)) = [''workflow-1e+21'']"
    using b e(3) v(3) by (intro one[OF n(3)]) simp
  moreover have "map callSessionId (agentCalls (main ?sched)) = [''schedule-20240506070809123'']"
    using s e(4) v(5) by (intro one[OF n(4)]) simp
  moreover have "map callSessionId (agentCalls (mainDirect demoWorld)) =
     [''session-1714979289123'']"
    using d v(4) by (intro one[OF n(5)]) simp
  moreover have "''schedule-'' @ filter isDigit ''2024-05-06T07:08:09.123Z'' \<noteq>
      ''schedule-'' @ filter isDigit ''2024-05-06T07:08:10.123Z''"
    using d i t by blast
  moreover have "''workflow-'' @ numberToString (SafeInteger 42) \<noteq>
      ''workflow-'' @ numberToString (SafeInteger 43)"
    using d w by blast
  ultimately show ?thesis
    using e r i t w by simp
qed

text \<open>
  Claim C10. In both entry points the memory id passed to the agent is absent when the
  \<open>memory_id\<close> input is empty after trimming, and is the trimmed input otherwise.
\<close>

theorem memoryId_forwarding:
  "(\<forall>c \<in> set (agentCalls (main w)).
      callMemoryId c =
        (if trim (getInput w ''memory_id'') = [] then None
         else Some (trim (getInput w ''memory_id'')))) \<and>
   (\<forall>c \<in> set (agentCalls (mainDirect w)).
      callMemoryId c =
        (if trim (getInput w ''memory_id'') = [] then None
         else Some (trim (getInput w ''memory_id''))))"
proof -
  have a: "\<And>c. c \<in> set (agentCalls (main w)) \<Longrightarrow>
      callMemoryId c = memoryIdOf (getInput w ''memory_id'')"
    by (auto dest!: main_call_state prepare_state simp: callOf_def)
  have b: "\<And>c. c \<in> set (agentCalls (mainDirect w)) \<Longrightarrow>
      callMemoryId c = memoryIdOf (getInput w ''memory_id'')"
    by (auto simp: mainDirect_calls split: sum.splits)
  show ?thesis
    using a b by (simp add: memoryIdOf_def)
qed


theorem memoryId_forwarding_witness:
  "trim (getInput demoWorld ''memory_id'') = [] \<and>
   map callMemoryId (agentCalls (main demoWorld)) = [None] \<and>
   map callMemoryId (agentCalls (mainDirect demoWorld)) = [None] \<and>
   map callMemoryId (agentCalls (main
     (demoWorld\<lparr>getInput := (getInput demoWorld)(''memory_id'' := '' mem-1 '')\<rparr>))) =
     [Some ''mem-1''] \<and>
   map callMemoryId (agentCalls (mainDirect
     (demoWorld\<lparr>getInput := (getInput demoWorld)(''memory_id'' := '' mem-1 '')\<rparr>))) =
     [Some ''mem-1'']"
proof -
  let ?w = "demoWorld\<lparr>getInput := (getInput demoWorld)(''memory_id'' := '' mem-1 '')\<rparr>"
  have t: "trim (getInput demoWorld ''memory_id'') = []"
      "trim (getInput ?w ''memory_id'') = ''mem-1''"
    by (simp_all add: demoWorld_def trim_def isWhiteSpace_def)
  have n: "length (agentCalls (main demoWorld)) = 1"
      "length (agentCalls (mainDirect demoWorld)) = 1"
      "length (agentCalls (main ?w)) = 1"
      "length (agentCalls (mainDirect ?w)) = 1"
    by (simp_all add: demoWorld_def run_defs)
  have one: "\<And>xs (f :: agentCall \<Rightarrow> string option) v.
      length xs = 1 \<Longrightarrow> \<forall>c \<in> set xs. f c = v \<Longrightarrow> map f xs = [v]"
    by (case_tac xs) simp_all
  note a = memoryId_forwarding[of demoWorld] and b = memoryId_forwarding[of ?w]
  have "map callMemoryId (agentCalls (main demoWorld)) = [None]"
    using a t by (intro one[OF n(1)]) simp
  moreover have "map callMemoryId (agentCalls (mainDirect demoWorld)) = [None]"
    using a t by (intro one[OF n(2)]) simp
  moreover have "map callMemoryId (agentCalls (main ?w)) = [Some ''mem-1'']"
    using b t by (intro one[OF n(3)]) simp
  moreover have "map callMemoryId (agentCalls (mainDirect ?w)) = [Some ''mem-1'']"
    using b t by (intro one[OF n(4)]) simp
  ultimately show ?thesis
    using t by blast
qed

section \<open>The empty context\<close>

text \<open>
  Line 126 finds both lists empty exactly when every enumerated file is matched by an
  ignore pattern (in particular when the listing holds no file).
\<close>

lemma emptyContext_all_ignored:
  assumes "prepare w = (es, Normal st)"
  shows "emptyContext st \<longleftrightarrow>
         (\<forall>f \<in> set (changedFiles st). isIgnored w (filename f) (allIgnorePatterns st))"
proof -
  from prepare_gathered[OF assms] obtain repository where
    g: "gathered st = processAll w (changedFiles st) (allIgnorePatterns st)
          (element (splitStr CHR ''/'' repository) 0)
          (element (splitStr CHR ''/'' repository) 1) (eventName w)"
    by blast
  show ?thesis
    unfolding emptyContext_def g
    by (auto simp: processAll_diffs processAll_code settleOrder_def filter_empty_conv)
qed

text \<open>
  Claim C8. A run that reaches line 126 with no content block and no status entry logs
  the warning and ends there: it signals no failure, calls no agent and prints no report.
\<close>

theorem empty_context_soft_fail:
  "reachesEmptyContext w \<Longrightarrow>
   warnings (main w) =
     [stamp w (Line 127) @ '' No relevant files or diffs found for analysis.''] \<and>
   last (main w) =
     CoreWarning (stamp w (Line 127) @ '' No relevant files or diffs found for analysis.'') \<and>
   failures (main w) = [] \<and> agentCalls (main w) = [] \<and> reports (main w) = []"
proof -
  assume a: "reachesEmptyContext w"
  then have ne: "\<not> envMissing w" by (simp add: reachesEmptyContext_def)
  from a obtain es st where P: "prepare w = (es, Normal st)" and e: "emptyContext st"
    by (auto simp: reachesEmptyContext_def split: prod.splits completion.splits)
  note T = prepare_trace[OF P]
  show ?thesis
    using ne P e T by (simp add: main_unfold conclude_empty trace_append)
qed

theorem empty_context_soft_fail_witness:
  "reachesEmptyContext
     (demoWorld\<lparr>getInput := (getInput demoWorld)(''ignore_patterns'' := ''*'')\<rparr>) \<and>
   main (demoWorld\<lparr>getInput := (getInput demoWorld)(''ignore_patterns'' := ''*'')\<rparr>) =
     [CoreInfo ''[2024-05-06T07:08:09.123Z] Starting GitHub Action'',
      CoreInfo ''[2024-05-06T07:08:09.123Z] Processing workflow_dispatch (ID: 42) in repository octo/demo'',
      CoreInfo ''[2024-05-06T07:08:09.123Z] Retrieved 3 changed files'',
      CoreWarning ''[2024-05-06T07:08:09.123Z] No relevant files or diffs found for analysis.''] \<and>
   warnings (main (demoWorld\<lparr>getInput := (getInput demoWorld)(''ignore_patterns'' := ''*'')\<rparr>)) =
     [''[2024-05-06T07:08:09.123Z] No relevant files or diffs found for analysis.''] \<and>
   failures (main (demoWorld\<lparr>getInput := (getInput demoWorld)(''ignore_patterns'' := ''*'')\<rparr>)) = [] \<and>
   agentCalls (main (demoWorld\<lparr>getInput := (getInput demoWorld)(''ignore_patterns'' := ''*'')\<rparr>)) = [] \<and>
   reports (main (demoWorld\<lparr>getInput := (getInput demoWorld)(''ignore_patterns'' := ''*'')\<rparr>)) = []"
proof -
  have r: "reachesEmptyContext
     (demoWorld\<lparr>getInput := (getInput demoWorld)(''ignore_patterns'' := ''*'')\<rparr>)"
    by (simp add: reachesEmptyContext_def envMissing_def emptyContext_def demoWorld_def run_defs)
  have m: "main (demoWorld\<lparr>getInput := (getInput demoWorld)(''ignore_patterns'' := ''*'')\<rparr>) =
     [CoreInfo ''[2024-05-06T07:08:09.123Z] Starting GitHub Action'',
      CoreInfo ''[2024-05-06T07:08:09.123Z] Processing workflow_dispatch (ID: 42) in repository octo/demo'',
      CoreInfo ''[2024-05-06T07:08:09.123Z] Retrieved 3 changed files'',
      CoreWarning ''[2024-05-06T07:08:09.123Z] No relevant files or diffs found for analysis.'']"
    by (simp add: demoWorld_def run_defs)
  have s: "stamp (demoWorld\<lparr>getInput := (getInput demoWorld)(''ignore_patterns'' := ''*'')\<rparr>)
      (Line 127) = ''[2024-05-06T07:08:09.123Z]''"
    by (simp add: demoWorld_def stamp_def getTimestamp_def)
  show ?thesis
    using r m empty_context_soft_fail[OF r] by (simp add: s)
qed


section \<open>The debug flag\<close>

text \<open>
  Replacing the value of \<open>getBooleanInput\<close> changes nothing but the flag, and the flag
  changes nothing but \<open>core.info\<close> lines.
\<close>

lemma envMissing_flag: "envMissing (w\<lparr>getBooleanInput := g\<rparr>) = envMissing w"
  by (simp add: envMissing_def)

lemma stamp_flag: "stamp (w\<lparr>getBooleanInput := g\<rparr>) s = stamp w s"
  by (simp add: stamp_def getTimestamp_def)

lemma processFile_flag:
  "processFile (w\<lparr>getBooleanInput := g\<rparr>) f pats owner repo ev acc =
   processFile w f pats owner repo ev acc"
  by (simp add: processFile_def isIgnored_def stamp_def getTimestamp_def Let_def split: sum.splits)

lemma processAll_flag:
  "processAll (w\<lparr>getBooleanInput := g\<rparr>) files pats owner repo ev =
   processAll w files pats owner repo ev"
  by (simp add: processAll_def settleOrder_def processFile_flag)

lemma enumerate_flag:
  "enumerate (w\<lparr>getBooleanInput := g\<rparr>) owner repo = enumerate w owner repo"
  by (simp add: enumerate_def snapshot_def stamp_def getTimestamp_def Let_def split: sum.splits)

lemma loadGitignore_flag:
  "loadGitignore (w\<lparr>getBooleanInput := g\<rparr>) dbg = loadGitignore w dbg"
  by (simp add: loadGitignore_def stamp_def getTimestamp_def Let_def cong: if_cong split: option.splits)

lemma loadGitignore_debug:
  "snd (loadGitignore w d1) = snd (loadGitignore w d2) \<and>
   quiet (fst (loadGitignore w d1)) = quiet (fst (loadGitignore w d2))"
  by (simp add: loadGitignore_def bind_def await_def emit_def Let_def quiet_simps
      split: option.splits sum.splits)

lemma prepare_debug:
  assumes "prepare (w\<lparr>getBooleanInput := (getBooleanInput w)(''debug'' := Inr d1)\<rparr>) = (es1, r1)"
    and "prepare (w\<lparr>getBooleanInput := (getBooleanInput w)(''debug'' := Inr d2)\<rparr>) = (es2, r2)"
  shows "quiet es1 = quiet es2 \<and> sameButDebug r1 r2"
proof -
  obtain l1 p1 where L1: "loadGitignore w d1 = (l1, p1)" by (cases "loadGitignore w d1")
  obtain l2 p2 where L2: "loadGitignore w d2 = (l2, p2)" by (cases "loadGitignore w d2")
  from loadGitignore_debug[of w d1 d2] L1 L2 have same: "p1 = p2" "quiet l1 = quiet l2"
    by simp_all
  show ?thesis
    using assms L1 L2 same
    unfolding prepare_def Let_def bind_def await_def emit_def
    by (auto simp: enumerate_flag loadGitignore_flag processAll_flag quiet_append quiet_simps
          stamp_def getTimestamp_def
        split: option.splits prod.splits completion.splits
        intro: runState.equality)
qed

lemma formatMarkdownAnalysis_flag:
  "formatMarkdownAnalysis (w\<lparr>getBooleanInput := g\<rparr>) response ev n m files =
   formatMarkdownAnalysis w response ev n m files"
  by (simp add: formatMarkdownAnalysis_def)

lemma conclude_debug:
  "quiet (fst (conclude w (st\<lparr>debug := d\<rparr>))) = quiet (fst (conclude w st)) \<and>
   snd (conclude w (st\<lparr>debug := d\<rparr>)) = snd (conclude w st)"
proof (cases "emptyContext st")
  case True
  then have "emptyContext (st\<lparr>debug := d\<rparr>)" by (simp add: emptyContext_def)
  with True show ?thesis by (simp add: conclude_empty)
next
  case False
  then have ne: "\<not> emptyContext (st\<lparr>debug := d\<rparr>)" by (simp add: emptyContext_def)
  have c: "callOf (st\<lparr>debug := d\<rparr>) = callOf st" by (simp add: callOf_def)
  show ?thesis
    using conclude_quiet[OF False, of w] conclude_quiet[OF ne, of w]
    by (simp add: c split: sum.splits)
qed

lemma conclude_flag:
  "quiet (fst (conclude (w\<lparr>getBooleanInput := g\<rparr>) st)) = quiet (fst (conclude w st)) \<and>
   snd (conclude (w\<lparr>getBooleanInput := g\<rparr>) st) = snd (conclude w st)"
proof (cases "emptyContext st")
  case True
  then show ?thesis by (simp add: conclude_empty stamp_def getTimestamp_def quiet_simps)
next
  case False
  show ?thesis
    using conclude_quiet[OF False, of w] conclude_quiet[OF False, of "w\<lparr>getBooleanInput := g\<rparr>"]
    by (simp add: formatMarkdownAnalysis_flag split: sum.splits)
qed

lemma main_debug:
  "quiet (main (w\<lparr>getBooleanInput := (getBooleanInput w)(''debug'' := Inr d1)\<rparr>)) =
   quiet (main (w\<lparr>getBooleanInput := (getBooleanInput w)(''debug'' := Inr d2)\<rparr>))"
proof -
  let ?w1 = "w\<lparr>getBooleanInput := (getBooleanInput w)(''debug'' := Inr d1)\<rparr>"
  let ?w2 = "w\<lparr>getBooleanInput := (getBooleanInput w)(''debug'' := Inr d2)\<rparr>"
  obtain es1 r1 where P1: "prepare ?w1 = (es1, r1)" by (cases "prepare ?w1")
  obtain es2 r2 where P2: "prepare ?w2 = (es2, r2)" by (cases "prepare ?w2")
  from prepare_debug[OF P1 P2] have q: "quiet es1 = quiet es2" and r: "sameButDebug r1 r2"
    by simp_all
  show ?thesis
  proof (cases "envMissing w")
    case True
    then show ?thesis by (simp add: main_unfold envMissing_flag stamp_flag)
  next
    case False
    show ?thesis
    proof (cases r1)
      case (Normal s)
      with r obtain d where t: "r2 = Normal (s\<lparr>debug := d\<rparr>)"
        by (cases r2) auto
      have c: "quiet (fst (conclude ?w1 s)) = quiet (fst (conclude ?w2 (s\<lparr>debug := d\<rparr>)))"
              "snd (conclude ?w1 s) = snd (conclude ?w2 (s\<lparr>debug := d\<rparr>))"
        using conclude_flag[where w = w and g = "(getBooleanInput w)(''debug'' := Inr d1)" and st = s]
          conclude_flag[where w = w and g = "(getBooleanInput w)(''debug'' := Inr d2)"
            and st = "s\<lparr>debug := d\<rparr>"]
          conclude_debug[where w = w and st = s and d = d]
        by simp_all
      show ?thesis
        using False P1 P2 Normal t q c
        by (simp add: main_unfold envMissing_flag stamp_flag quiet_append quiet_simps
            split: completion.splits)
    next
      case Returned
      with r have "r2 = Returned" by (cases r2) auto
      then show ?thesis
        using False P1 P2 Returned q
        by (simp add: main_unfold envMissing_flag stamp_flag quiet_simps)
    next
      case (Thrown m)
      with r have "r2 = Thrown m" by (cases r2) auto
      then show ?thesis
        using False P1 P2 Thrown q
        by (simp add: main_unfold envMissing_flag stamp_flag quiet_simps quiet_append)
    qed
  qed
qed

lemma mainDirect_debug:
  "quiet (mainDirect (w\<lparr>getBooleanInput := (getBooleanInput w)(''debug'' := Inr d1)\<rparr>)) =
   quiet (mainDirect (w\<lparr>getBooleanInput := (getBooleanInput w)(''debug'' := Inr d2)\<rparr>))"
  by (simp add: mainDirect_def bodyDirect_def bind_def emit_def await_def Let_def stamp_flag
      quiet_simps quiet_append split: sum.splits)


text \<open>
  Claim C9. Two runs in the same environment that differ only in the debug flag produce
  the same trace once the \<open>core.info\<close> lines are removed; in particular the same calls
  of the agent, with the same prompt and arguments, and the same printed report. This
  holds for both entry points.
\<close>

theorem debug_only_traces:
  "quiet (main (w\<lparr>getBooleanInput := (getBooleanInput w)(''debug'' := Inr d1)\<rparr>)) =
     quiet (main (w\<lparr>getBooleanInput := (getBooleanInput w)(''debug'' := Inr d2)\<rparr>)) \<and>
   agentCalls (main (w\<lparr>getBooleanInput := (getBooleanInput w)(''debug'' := Inr d1)\<rparr>)) =
     agentCalls (main (w\<lparr>getBooleanInput := (getBooleanInput w)(''debug'' := Inr d2)\<rparr>)) \<and>
   reports (main (w\<lparr>getBooleanInput := (getBooleanInput w)(''debug'' := Inr d1)\<rparr>)) =
     reports (main (w\<lparr>getBooleanInput := (getBooleanInput w)(''debug'' := Inr d2)\<rparr>)) \<and>
   quiet (mainDirect (w\<lparr>getBooleanInput := (getBooleanInput w)(''debug'' := Inr d1)\<rparr>)) =
     quiet (mainDirect (w\<lparr>getBooleanInput := (getBooleanInput w)(''debug'' := Inr d2)\<rparr>)) \<and>
   agentCalls (mainDirect (w\<lparr>getBooleanInput := (getBooleanInput w)(''debug'' := Inr d1)\<rparr>)) =
     agentCalls (mainDirect (w\<lparr>getBooleanInput := (getBooleanInput w)(''debug'' := Inr d2)\<rparr>)) \<and>
   reports (mainDirect (w\<lparr>getBooleanInput := (getBooleanInput w)(''debug'' := Inr d1)\<rparr>)) =
     reports (mainDirect (w\<lparr>getBooleanInput := (getBooleanInput w)(''debug'' := Inr d2)\<rparr>))"
proof -
  note m = main_debug[of w d1 d2] and d = mainDirect_debug[of w d1 d2]
  have ac: "\<And>a b. quiet a = quiet b \<Longrightarrow> agentCalls a = agentCalls b"
    by (metis agentCalls_quiet)
  have rp: "\<And>a b. quiet a = quiet b \<Longrightarrow> reports a = reports b"
    by (metis reports_quiet)
  show ?thesis
    using m d ac[OF m] rp[OF m] ac[OF d] rp[OF d] by blast
qed


end
